theory Spec2Isabelle
  imports Complex_Main
begin

section \<open>JavaScript values\<close>

text \<open>
  The vision overlay client (\<^verbatim>\<open>src/nex/ui/static/js/nex-history.js\<close>, the second
  immediately-invoked function, lines 501-968) works on values that \<^verbatim>\<open>JSON.parse\<close>
  produced from socket messages, so the embedding keeps them untyped. A Number is a real
  or NaN: IEEE rounding, the infinities and the negative zero are not modelled.
\<close>

datatype jsnum = NaN | Num real

datatype jsval =
    JUndefined
  | JNull
  | JBool bool
  | JNumber jsnum
  | JString string
  | JArray "jsval list"
  | JObject "(string \<times> jsval) list"

datatype error = TypeError | InvalidStateError

text \<open>
  What the platform computes and the source only calls: Number to String, String to
  Number, \<^verbatim>\<open>parseInt\<close>, and the width \<^verbatim>\<open>ctx.measureText(label).width\<close>.
\<close>

record env =
  num_str :: "jsnum \<Rightarrow> string"
  str_num :: "string \<Rightarrow> jsnum"
  parse_int :: "string \<Rightarrow> jsnum"
  text_width :: "string \<Rightarrow> jsnum"

subsection \<open>Number arithmetic\<close>

fun js_mul :: "jsnum \<Rightarrow> jsnum \<Rightarrow> jsnum" where
  "js_mul (Num a) (Num b) = Num (a * b)"
| "js_mul _ _ = NaN"

fun js_plus :: "jsnum \<Rightarrow> jsnum \<Rightarrow> jsnum" where
  "js_plus (Num a) (Num b) = Num (a + b)"
| "js_plus _ _ = NaN"

fun js_minus :: "jsnum \<Rightarrow> jsnum \<Rightarrow> jsnum" where
  "js_minus (Num a) (Num b) = Num (a - b)"
| "js_minus _ _ = NaN"

text \<open>Division is only used with a divisor that the source has checked or fixed to be
  non-zero; a zero divisor (an infinity in JavaScript) is given as NaN.\<close>

fun js_div :: "jsnum \<Rightarrow> jsnum \<Rightarrow> jsnum" where
  "js_div (Num a) (Num b) = (if b = 0 then NaN else Num (a / b))"
| "js_div _ _ = NaN"

text \<open>The remainder \<^verbatim>\<open>a % b\<close> takes the sign of the dividend.\<close>

fun js_rem :: "jsnum \<Rightarrow> jsnum \<Rightarrow> jsnum" where
  "js_rem (Num a) (Num b) =
     (if b = 0 then NaN
      else Num (a - b * of_int (if 0 \<le> a / b then \<lfloor>a / b\<rfloor> else \<lceil>a / b\<rceil>)))"
| "js_rem _ _ = NaN"

fun math_min :: "jsnum \<Rightarrow> jsnum \<Rightarrow> jsnum" where
  "math_min (Num a) (Num b) = Num (min a b)"
| "math_min _ _ = NaN"

fun math_max :: "jsnum \<Rightarrow> jsnum \<Rightarrow> jsnum" where
  "math_max (Num a) (Num b) = Num (max a b)"
| "math_max _ _ = NaN"

text \<open>\<^verbatim>\<open>Math.round\<close> rounds to the nearest integer, a tie towards plus infinity.\<close>

fun math_round :: "jsnum \<Rightarrow> jsnum" where
  "math_round (Num a) = Num (of_int \<lfloor>a + 1 / 2\<rfloor>)"
| "math_round NaN = NaN"

text \<open>A comparison with NaN is false.\<close>

fun js_gt :: "jsnum \<Rightarrow> jsnum \<Rightarrow> bool" where
  "js_gt (Num a) (Num b) = (a > b)"
| "js_gt _ _ = False"

subsection \<open>Coercions and property access\<close>

fun truthy :: "jsval \<Rightarrow> bool" where
  "truthy JUndefined = False"
| "truthy JNull = False"
| "truthy (JBool b) = b"
| "truthy (JNumber NaN) = False"
| "truthy (JNumber (Num r)) = (r \<noteq> 0)"
| "truthy (JString s) = (s \<noteq> [])"
| "truthy (JArray _) = True"
| "truthy (JObject _) = True"

fun join_comma :: "string list \<Rightarrow> string" where
  "join_comma [] = []"
| "join_comma [s] = s"
| "join_comma (s # t # ss) = s @ '','' @ join_comma (t # ss)"

fun to_string :: "env \<Rightarrow> jsval \<Rightarrow> string" where
  "to_string E JUndefined = ''undefined''"
| "to_string E JNull = ''null''"
| "to_string E (JBool b) = (if b then ''true'' else ''false'')"
| "to_string E (JNumber n) = num_str E n"
| "to_string E (JString s) = s"
| "to_string E (JArray xs) =
     join_comma (map (\<lambda>x. if x = JUndefined \<or> x = JNull then [] else to_string E x) xs)"
| "to_string E (JObject _) = ''[object Object]''"

fun to_number :: "env \<Rightarrow> jsval \<Rightarrow> jsnum" where
  "to_number E JUndefined = NaN"
| "to_number E JNull = Num 0"
| "to_number E (JBool b) = (if b then Num 1 else Num 0)"
| "to_number E (JNumber n) = n"
| "to_number E (JString s) = str_num E s"
| "to_number E (JArray xs) = str_num E (to_string E (JArray xs))"
| "to_number E (JObject kvs) = str_num E (to_string E (JObject kvs))"

text \<open>The operator \<^verbatim>\<open>+\<close>: concatenation when an operand is a string, or an array or
  object (whose primitive value is a string); the sum of the numbers otherwise.\<close>

fun stringy :: "jsval \<Rightarrow> bool" where
  "stringy (JString _) = True"
| "stringy (JArray _) = True"
| "stringy (JObject _) = True"
| "stringy _ = False"

definition js_add :: "env \<Rightarrow> jsval \<Rightarrow> jsval \<Rightarrow> jsval" where
  "js_add E a b =
     (if stringy a \<or> stringy b then JString (to_string E a @ to_string E b)
      else JNumber (js_plus (to_number E a) (to_number E b)))"

text \<open>The decimal numeral of a natural number: the property key of an index.\<close>

fun digit_char :: "nat \<Rightarrow> char" where
  "digit_char n = ''0123456789'' ! (n mod 10)"

fun show_nat :: "nat \<Rightarrow> string" where
  "show_nat n = (if n < 10 then [digit_char n] else show_nat (n div 10) @ [digit_char n])"

declare show_nat.simps [simp del]

text \<open>
  Reading a property. The names the source reads from message data (\<^verbatim>\<open>type\<close>,
  \<^verbatim>\<open>mode\<close>, \<^verbatim>\<open>inference_ms\<close>, \<^verbatim>\<open>classifications\<close>, \<^verbatim>\<open>detections\<close>,
  \<^verbatim>\<open>class\<close>, \<^verbatim>\<open>confidence\<close>, \<^verbatim>\<open>bbox\<close>, \<^verbatim>\<open>polygon\<close>, \<^verbatim>\<open>length\<close> and
  indices) are not names a prototype defines, except \<^verbatim>\<open>length\<close> and the indices of
  arrays and strings; so a read is a read of an own property, and \<^verbatim>\<open>undefined\<close> when
  there is none. Reading from \<^verbatim>\<open>null\<close> or \<^verbatim>\<open>undefined\<close> throws a TypeError.
\<close>

fun get_prop :: "jsval \<Rightarrow> string \<Rightarrow> error + jsval" where
  "get_prop JUndefined k = Inl TypeError"
| "get_prop JNull k = Inl TypeError"
| "get_prop (JObject kvs) k = Inr (case map_of kvs k of Some v \<Rightarrow> v | None \<Rightarrow> JUndefined)"
| "get_prop (JArray xs) k =
     Inr (if k = ''length'' then JNumber (Num (real (length xs))) else JUndefined)"
| "get_prop (JString s) k =
     Inr (if k = ''length'' then JNumber (Num (real (length s))) else JUndefined)"
| "get_prop _ k = Inr JUndefined"

fun get_index :: "jsval \<Rightarrow> nat \<Rightarrow> error + jsval" where
  "get_index JUndefined i = Inl TypeError"
| "get_index JNull i = Inl TypeError"
| "get_index (JObject kvs) i =
     Inr (case map_of kvs (show_nat i) of Some v \<Rightarrow> v | None \<Rightarrow> JUndefined)"
| "get_index (JArray xs) i = Inr (if i < length xs then xs ! i else JUndefined)"
| "get_index (JString s) i = Inr (if i < length s then JString [s ! i] else JUndefined)"
| "get_index _ i = Inr JUndefined"

text \<open>Iteration (\<^verbatim>\<open>for ... of\<close> and array destructuring): arrays and strings are
  iterable, every other value of this model throws a TypeError.\<close>

fun iterate :: "jsval \<Rightarrow> error + jsval list" where
  "iterate (JArray xs) = Inr xs"
| "iterate (JString s) = Inr (map (\<lambda>c. JString [c]) s)"
| "iterate _ = Inl TypeError"

section \<open>The state of the vision client\<close>

text \<open>
  Handles of \<^verbatim>\<open>setInterval\<close> and \<^verbatim>\<open>requestAnimationFrame\<close> are integers greater
  than zero (HTML Standard), so a stored handle is truthy: \<open>Handle n\<close> stands for the
  handle \<open>n + 1\<close>, and the tests \<^verbatim>\<open>if (sendTimer)\<close>, \<^verbatim>\<open>if (rafId)\<close> are tests
  against \<^verbatim>\<open>null\<close>.
\<close>

datatype handle = Handle nat

datatype ready = CONNECTING | OPEN | CLOSING | CLOSED

text \<open>A WebSocket object of the browser: its \<^verbatim>\<open>readyState\<close>, and the \<^verbatim>\<open>token\<close> that
  the call of \<^verbatim>\<open>connectVisionWS\<close> which made it holds in its closure.\<close>

record socket =
  readyState :: ready
  auth_token :: jsval

text \<open>The outbound messages, before \<^verbatim>\<open>JSON.stringify\<close>.\<close>

datatype ws_msg =
    AuthMsg jsval
  | FrameMsg string jsval jsnum

datatype style = Color string | LinearGradient jsnum jsnum jsnum jsnum "(real \<times> string) list"

datatype canvas_op =
    ClearRect jsnum jsnum jsnum jsnum
  | BeginPath
  | MoveTo jsnum jsnum
  | LineTo jsnum jsnum
  | ClosePath
  | Fill
  | Stroke
  | FillStyle style
  | StrokeStyle string
  | LineWidth real
  | LineCap string
  | Font string
  | TextBaseline string
  | FillRect jsnum jsnum jsnum jsnum
  | StrokeRect jsnum jsnum jsnum jsnum
  | FillText string jsnum jsnum

text \<open>What a handler does to the world outside the module's variables. Sockets are
  named by their index in the list of the sockets made so far, tracks by a number.\<close>

datatype effect =
    WsSend nat ws_msg
  | WsCloseCall nat
  | NewWebSocket nat
  | SetInterval handle
  | ClearInterval handle
  | RequestAnimationFrame handle
  | CancelAnimationFrame handle
  | TrackStop nat
  | Draw canvas_op
  | ConsoleError
  | Uncaught error

text \<open>An entry of the side panel \<^verbatim>\<open>detectionsEl\<close>: the text of its name span and the
  percentage of its bar and of its confidence span. The markup around them is constant.\<close>

datatype panel_item = PanelItem string jsnum

text \<open>
  The module's variables (lines 535-555), the text of the four stats elements, the
  content of the side panel, the size of the overlay canvas, and the browser's sockets.
  The label of the start button, the display styles of the video and of the placeholder,
  and the classes of the mode buttons are written by the source and never read by it;
  they are left out.
\<close>

record vstate =
  stream :: "nat list option"
  ws :: "nat option"
  active :: bool
  mode :: jsval
  confThreshold :: jsnum
  awaitingResponse :: bool
  sendTimer :: "handle option"
  rafId :: "handle option"
  currentDetections :: jsval
  currentMode :: jsval
  frameCount :: nat
  lastFpsTime :: real
  currentFps :: nat
  lastInferenceMs :: jsval
  scanlineY :: jsnum
  canvas_width :: nat
  canvas_height :: nat
  fps_text :: jsval
  inference_text :: jsval
  objects_text :: jsval
  confidence_text :: jsval
  detections_html :: "panel_item list"
  sockets :: "socket list"

definition CYAN :: string where "CYAN = ''#00D9FF''"
definition CYAN_DIM :: string where "CYAN_DIM = ''rgba(0, 217, 255, 0.3)''"
definition CYAN_FILL :: string where "CYAN_FILL = ''rgba(0, 217, 255, 0.08)''"

section \<open>The sockets of the browser\<close>

text \<open>\<^verbatim>\<open>socket.send\<close>: throws while the socket is connecting, sends when it is open, and
  discards the message silently when it is closing or closed.\<close>

definition socket_send :: "nat \<Rightarrow> ws_msg \<Rightarrow> vstate \<Rightarrow> effect list" where
  "socket_send i m s =
     (if i < length (sockets s) then
        (case readyState (sockets s ! i) of
           CONNECTING \<Rightarrow> [Uncaught InvalidStateError]
         | OPEN \<Rightarrow> [WsSend i m]
         | CLOSING \<Rightarrow> []
         | CLOSED \<Rightarrow> [])
      else [])"

text \<open>\<^verbatim>\<open>socket.close()\<close>: a socket that is connecting or open starts closing.\<close>

definition socket_close :: "nat \<Rightarrow> vstate \<Rightarrow> vstate" where
  "socket_close i s =
     (if i < length (sockets s) \<and> readyState (sockets s ! i) \<in> {CONNECTING, OPEN}
      then s\<lparr>sockets := (sockets s)[i := (sockets s ! i)\<lparr>readyState := CLOSING\<rparr>]\<rparr>
      else s)"

definition set_ready :: "nat \<Rightarrow> ready \<Rightarrow> vstate \<Rightarrow> vstate" where
  "set_ready i r s = s\<lparr>sockets := (sockets s)[i := (sockets s ! i)\<lparr>readyState := r\<rparr>]\<rparr>"

definition socket_is_open :: "vstate \<Rightarrow> nat \<Rightarrow> bool" where
  "socket_is_open s i = (i < length (sockets s) \<and> readyState (sockets s ! i) = OPEN)"

section \<open>Frame sending (lines 692-709)\<close>

text \<open>\<^verbatim>\<open>startSendLoop\<close> arms the capture timer; \<open>h\<close> is the handle \<^verbatim>\<open>setInterval\<close> returns.\<close>

definition startSendLoop :: "handle \<Rightarrow> vstate \<Rightarrow> effect list \<times> vstate" where
  "startSendLoop h s = ([SetInterval h], s\<lparr>sendTimer := Some h\<rparr>)"

text \<open>The timer's callback, one capture tick. \<open>b64\<close> is the encoded frame, the part of
  \<^verbatim>\<open>offscreen.toDataURL('image/jpeg', JPEG_QUALITY)\<close> after the comma.\<close>

definition sendLoop_tick :: "string \<Rightarrow> vstate \<Rightarrow> effect list \<times> vstate" where
  "sendLoop_tick b64 s =
     (if \<not> active s then ([], s)
      else (case ws s of
              None \<Rightarrow> ([], s)
            | Some i \<Rightarrow>
                if \<not> socket_is_open s i \<or> awaitingResponse s then ([], s)
                else (socket_send i (FrameMsg b64 (mode s) (confThreshold s)) s,
                      s\<lparr>awaitingResponse := True\<rparr>)))"

section \<open>The detection list of the side panel (lines 912-940)\<close>

record group =
  count :: nat
  maxConf :: jsnum

text \<open>
  \<^verbatim>\<open>const groups = {}\<close> is an ordinary object: it inherits the properties of
  \<^verbatim>\<open>Object.prototype\<close>, whose names are these. \<^verbatim>\<open>groups[name]\<close> for one of them is
  a function (for \<^verbatim>\<open>__proto__\<close>, the prototype object): a truthy value that is not an
  own property of \<^verbatim>\<open>groups\<close>.
\<close>

definition object_proto_names :: "string list" where
  "object_proto_names =
     [''constructor'', ''__defineGetter__'', ''__defineSetter__'', ''hasOwnProperty'',
      ''__lookupGetter__'', ''__lookupSetter__'', ''isPrototypeOf'',
      ''propertyIsEnumerable'', ''toString'', ''valueOf'', ''__proto__'',
      ''toLocaleString'']"

text \<open>
  One round of the grouping loop (lines 927-929), on the own properties of
  \<^verbatim>\<open>groups\<close> in the order of their creation. When \<^verbatim>\<open>groups[d.class]\<close> is an
  inherited property, the test of line 927 finds it truthy, and lines 928-929 write
  \<^verbatim>\<open>count\<close> and \<^verbatim>\<open>maxConf\<close> onto the inherited function: \<^verbatim>\<open>groups\<close> gets no own
  property.
\<close>

definition bump_group :: "string \<Rightarrow> jsnum \<Rightarrow> string \<times> group \<Rightarrow> string \<times> group" where
  "bump_group k c e =
     (if fst e = k
      then (k, \<lparr>count = count (snd e) + 1, maxConf = math_max (maxConf (snd e)) c\<rparr>)
      else e)"

definition group_add :: "env \<Rightarrow> (string \<times> group) list \<Rightarrow> jsval \<Rightarrow> error + (string \<times> group) list" where
  "group_add E groups d =
     (case get_prop d ''class'' of
        Inl e \<Rightarrow> Inl e
      | Inr cls \<Rightarrow>
          (case get_prop d ''confidence'' of
             Inl e \<Rightarrow> Inl e
           | Inr cf \<Rightarrow>
               (let k = to_string E cls; c = to_number E cf in
                if k \<in> fst ` set groups then Inr (map (bump_group k c) groups)
                else if k \<in> set object_proto_names then Inr groups
                else Inr (groups @ [(k, \<lparr>count = 1, maxConf = math_max (Num 0) c\<rparr>)]))))"

fun group_all :: "env \<Rightarrow> (string \<times> group) list \<Rightarrow> jsval list \<Rightarrow> error + (string \<times> group) list" where
  "group_all E groups [] = Inr groups"
| "group_all E groups (d # ds) =
     (case group_add E groups d of Inl e \<Rightarrow> Inl e | Inr g \<Rightarrow> group_all E g ds)"

text \<open>
  \<^verbatim>\<open>Object.entries\<close> lists the own properties: first those whose name is an array
  index (a canonical decimal numeral below \<open>2^32 - 1\<close>) in ascending numeric order, then
  the others in the order of their creation.
\<close>

definition is_digit :: "char \<Rightarrow> bool" where
  "is_digit c = (48 \<le> (of_char c :: nat) \<and> (of_char c :: nat) \<le> 57)"

definition parse_nat :: "string \<Rightarrow> nat" where
  "parse_nat s = foldl (\<lambda>n c. 10 * n + (of_char c - 48)) 0 s"

definition is_array_index :: "string \<Rightarrow> bool" where
  "is_array_index s =
     (s \<noteq> [] \<and> list_all is_digit s \<and> (s = ''0'' \<or> hd s \<noteq> CHR ''0'')
      \<and> parse_nat s < 4294967295)"

definition object_entries :: "(string \<times> group) list \<Rightarrow> (string \<times> group) list" where
  "object_entries groups =
     sort_key (\<lambda>e. parse_nat (fst e)) (filter (\<lambda>e. is_array_index (fst e)) groups)
     @ filter (\<lambda>e. \<not> is_array_index (fst e)) groups"

text \<open>\<^verbatim>\<open>sort((a, b) => b[1].count - a[1].count)\<close>: a stable sort, the larger count first.\<close>

definition sort_by_count :: "(string \<times> group) list \<Rightarrow> (string \<times> group) list" where
  "sort_by_count es = sort_key (\<lambda>e. - int (count (snd e))) es"

definition group_item :: "env \<Rightarrow> string \<times> group \<Rightarrow> panel_item" where
  "group_item E e =
     PanelItem
       (fst e @ (if count (snd e) > 1 then '' x'' @ num_str E (Num (real (count (snd e)))) else []))
       (math_round (js_mul (maxConf (snd e)) (Num 100)))"

definition classify_item :: "env \<Rightarrow> jsval \<Rightarrow> error + panel_item" where
  "classify_item E c =
     (case get_prop c ''class'' of
        Inl e \<Rightarrow> Inl e
      | Inr cls \<Rightarrow>
          (case get_prop c ''confidence'' of
             Inl e \<Rightarrow> Inl e
           | Inr cf \<Rightarrow>
               Inr (PanelItem (to_string E cls) (math_round (js_mul (to_number E cf) (Num 100))))))"

fun classify_items :: "env \<Rightarrow> jsval list \<Rightarrow> error + panel_item list" where
  "classify_items E [] = Inr []"
| "classify_items E (c # cs) =
     (case classify_item E c of
        Inl e \<Rightarrow> Inl e
      | Inr it \<Rightarrow> (case classify_items E cs of Inl e \<Rightarrow> Inl e | Inr its \<Rightarrow> Inr (it # its)))"

text \<open>\<^verbatim>\<open>updateDetectionsList\<close>: the error, if it throws, and the state it leaves.
  Only an array has a \<^verbatim>\<open>map\<close> method.\<close>

definition updateDetectionsList :: "env \<Rightarrow> vstate \<Rightarrow> error option \<times> vstate" where
  "updateDetectionsList E s =
     (if currentMode s = JString ''classify'' then
        (case currentDetections s of
           JArray cs \<Rightarrow>
             (case classify_items E cs of
                Inl e \<Rightarrow> (Some e, s)
              | Inr its \<Rightarrow> (None, s\<lparr>detections_html := its\<rparr>))
         | _ \<Rightarrow> (Some TypeError, s))
      else
        (case iterate (currentDetections s) of
           Inl e \<Rightarrow> (Some e, s)
         | Inr ds \<Rightarrow>
             (case group_all E [] ds of
                Inl e \<Rightarrow> (Some e, s)
              | Inr groups \<Rightarrow>
                  (None, s\<lparr>detections_html :=
                              map (group_item E) (sort_by_count (object_entries groups))\<rparr>))))"

section \<open>Results from the service (lines 655-688)\<close>

text \<open>Lines 659-666. \<^verbatim>\<open>(msg.classifications || []).map(...)\<close> throws on a truthy value
  that is not an array, and on an element that is \<^verbatim>\<open>null\<close>.\<close>

definition copy_classification :: "jsval \<Rightarrow> error + jsval" where
  "copy_classification c =
     (case get_prop c ''class'' of
        Inl e \<Rightarrow> Inl e
      | Inr cls \<Rightarrow>
          (case get_prop c ''confidence'' of
             Inl e \<Rightarrow> Inl e
           | Inr cf \<Rightarrow> Inr (JObject [(''class'', cls), (''confidence'', cf)])))"

fun copy_classifications :: "jsval list \<Rightarrow> error + jsval list" where
  "copy_classifications [] = Inr []"
| "copy_classifications (c # cs) =
     (case copy_classification c of
        Inl e \<Rightarrow> Inl e
      | Inr d \<Rightarrow> (case copy_classifications cs of Inl e \<Rightarrow> Inl e | Inr ds \<Rightarrow> Inr (d # ds)))"

definition js_or :: "jsval \<Rightarrow> jsval \<Rightarrow> jsval" where
  "js_or a b = (if truthy a then a else b)"

definition set_detections :: "jsval \<Rightarrow> vstate \<Rightarrow> error + vstate" where
  "set_detections msg s =
     (case get_prop msg ''mode'' of
        Inl e \<Rightarrow> Inl e
      | Inr m \<Rightarrow>
          if m = JString ''classify'' then
            (case get_prop msg ''classifications'' of
               Inl e \<Rightarrow> Inl e
             | Inr cs \<Rightarrow>
                 (case js_or cs (JArray []) of
                    JArray xs \<Rightarrow>
                      (case copy_classifications xs of
                         Inl e \<Rightarrow> Inl e
                       | Inr ds \<Rightarrow> Inr (s\<lparr>currentDetections := JArray ds\<rparr>))
                  | _ \<Rightarrow> Inl TypeError))
          else
            (case get_prop msg ''detections'' of
               Inl e \<Rightarrow> Inl e
             | Inr ds \<Rightarrow> Inr (s\<lparr>currentDetections := js_or ds (JArray [])\<rparr>)))"

text \<open>Lines 669-675; \<open>now\<close> is the value of \<^verbatim>\<open>performance.now()\<close>.\<close>

definition update_fps :: "real \<Rightarrow> vstate \<Rightarrow> vstate" where
  "update_fps now s =
     (let s1 = s\<lparr>frameCount := frameCount s + 1\<rparr> in
      if now - lastFpsTime s1 \<ge> 1000
      then s1\<lparr>currentFps := frameCount s1, frameCount := 0, lastFpsTime := now\<rparr>
      else s1)"

text \<open>Lines 677-680: the object count and the average confidence.\<close>

fun sum_confidence :: "env \<Rightarrow> jsval \<Rightarrow> jsval list \<Rightarrow> error + jsval" where
  "sum_confidence E acc [] = Inr acc"
| "sum_confidence E acc (d # ds) =
     (case get_prop d ''confidence'' of
        Inl e \<Rightarrow> Inl e
      | Inr c \<Rightarrow> sum_confidence E (js_add E acc c) ds)"

definition avg_confidence :: "env \<Rightarrow> jsval \<Rightarrow> error + (jsval \<times> jsnum)" where
  "avg_confidence E cd =
     (case get_prop cd ''length'' of
        Inl e \<Rightarrow> Inl e
      | Inr objCount \<Rightarrow>
          if js_gt (to_number E objCount) (Num 0) then
            (case cd of
               JArray ds \<Rightarrow>
                 (case sum_confidence E (JNumber (Num 0)) ds of
                    Inl e \<Rightarrow> Inl e
                  | Inr tot \<Rightarrow>
                      Inr (objCount, js_div (to_number E tot) (to_number E objCount)))
             | _ \<Rightarrow> Inl TypeError)
          else Inr (objCount, Num 0))"

text \<open>\<^verbatim>\<open>handleVisionResult\<close>: the error, if it throws, and the state it leaves; what was
  assigned before the throw stays assigned.\<close>

definition handleVisionResult :: "env \<Rightarrow> real \<Rightarrow> jsval \<Rightarrow> vstate \<Rightarrow> error option \<times> vstate" where
  "handleVisionResult E now msg s =
     (case get_prop msg ''mode'' of
        Inl e \<Rightarrow> (Some e, s)
      | Inr m \<Rightarrow>
          (let s1 = s\<lparr>currentMode := m\<rparr> in
           case get_prop msg ''inference_ms'' of
             Inl e \<Rightarrow> (Some e, s1)
           | Inr ms \<Rightarrow>
               (let s2 = s1\<lparr>lastInferenceMs := js_or ms (JNumber (Num 0))\<rparr> in
                case set_detections msg s2 of
                  Inl e \<Rightarrow> (Some e, s2)
                | Inr s3 \<Rightarrow>
                    (let s4 = update_fps now s3 in
                     case avg_confidence E (currentDetections s4) of
                       Inl e \<Rightarrow> (Some e, s4)
                     | Inr (objCount, avgConf) \<Rightarrow>
                         updateDetectionsList E
                           (s4\<lparr>fps_text := JNumber (Num (real (currentFps s4))),
                               inference_text := js_add E (lastInferenceMs s4) (JString ''ms''),
                               objects_text := objCount,
                               confidence_text :=
                                 js_add E (JNumber (math_round (js_mul avgConf (Num 100))))
                                   (JString ''%'')\<rparr>)))))"

section \<open>The heads-up display (lines 713-908)\<close>

definition nth_or_undefined :: "jsval list \<Rightarrow> nat \<Rightarrow> jsval" where
  "nth_or_undefined xs i = (if i < length xs then xs ! i else JUndefined)"

text \<open>Lines 742-746: the destructuring of \<^verbatim>\<open>det.bbox\<close> and the scaling of its first four
  elements to the surface. It throws when \<^verbatim>\<open>det\<close> is \<^verbatim>\<open>null\<close> and when
  \<^verbatim>\<open>det.bbox\<close> is not iterable.\<close>

definition bbox_px :: "env \<Rightarrow> jsnum \<Rightarrow> jsnum \<Rightarrow> jsval \<Rightarrow> error + (jsnum \<times> jsnum \<times> jsnum \<times> jsnum)" where
  "bbox_px E cw ch det =
     (case get_prop det ''bbox'' of
        Inl e \<Rightarrow> Inl e
      | Inr b \<Rightarrow>
          (case iterate b of
             Inl e \<Rightarrow> Inl e
           | Inr es \<Rightarrow>
               Inr (js_mul (to_number E (nth_or_undefined es 0)) cw,
                    js_mul (to_number E (nth_or_undefined es 1)) ch,
                    js_mul (to_number E (nth_or_undefined es 2)) cw,
                    js_mul (to_number E (nth_or_undefined es 3)) ch)))"

text \<open>The point \<^verbatim>\<open>(p[i][0] * cw, p[i][1] * ch)\<close> of a polygon.\<close>

definition polygon_point :: "env \<Rightarrow> jsnum \<Rightarrow> jsnum \<Rightarrow> jsval \<Rightarrow> nat \<Rightarrow> error + (jsnum \<times> jsnum)" where
  "polygon_point E cw ch p i =
     (case get_index p i of
        Inl e \<Rightarrow> Inl e
      | Inr pt \<Rightarrow>
          (case get_index pt 0 of
             Inl e \<Rightarrow> Inl e
           | Inr px \<Rightarrow>
               (case get_index pt 1 of
                  Inl e \<Rightarrow> Inl e
                | Inr py \<Rightarrow> Inr (js_mul (to_number E px) cw, js_mul (to_number E py) ch))))"

text \<open>The loop of lines 754-756 over the indices from 1 below \<^verbatim>\<open>det.polygon.length\<close>;
  a throw ends it and keeps what was drawn.\<close>

fun polygon_lines :: "env \<Rightarrow> jsnum \<Rightarrow> jsnum \<Rightarrow> jsval \<Rightarrow> nat list \<Rightarrow> canvas_op list \<times> error option" where
  "polygon_lines E cw ch p [] = ([], None)"
| "polygon_lines E cw ch p (i # is) =
     (case polygon_point E cw ch p i of
        Inl e \<Rightarrow> ([], Some e)
      | Inr (x, y) \<Rightarrow>
          (let (ops, r) = polygon_lines E cw ch p is in (LineTo x y # ops, r)))"

fun loop_indices :: "jsnum \<Rightarrow> nat list" where
  "loop_indices (Num r) = [1..<nat \<lceil>r\<rceil>]"
| "loop_indices NaN = []"

definition polygon_length_gt2 :: "env \<Rightarrow> jsval \<Rightarrow> bool" where
  "polygon_length_gt2 E p =
     (truthy p \<and> (case get_prop p ''length'' of
                     Inl e \<Rightarrow> False
                   | Inr n \<Rightarrow> js_gt (to_number E n) (Num 2)))"

definition polygon_bound :: "env \<Rightarrow> jsval \<Rightarrow> jsnum" where
  "polygon_bound E p = (case get_prop p ''length'' of Inl e \<Rightarrow> NaN | Inr n \<Rightarrow> to_number E n)"

text \<open>Lines 750-763: the polygon mask, drawn when the detection has a polygon of more
  than two points.\<close>

definition draw_polygon :: "env \<Rightarrow> jsnum \<Rightarrow> jsnum \<Rightarrow> jsval \<Rightarrow> canvas_op list \<times> error option" where
  "draw_polygon E cw ch det =
     (case get_prop det ''polygon'' of
        Inl e \<Rightarrow> ([], Some e)
      | Inr p \<Rightarrow>
          if polygon_length_gt2 E p then
            (case polygon_point E cw ch p 0 of
               Inl e \<Rightarrow> ([BeginPath], Some e)
             | Inr (x, y) \<Rightarrow>
                 (case polygon_lines E cw ch p (loop_indices (polygon_bound E p)) of
                    (ops, Some e) \<Rightarrow> (BeginPath # MoveTo x y # ops, Some e)
                  | (ops, None) \<Rightarrow>
                      (BeginPath # MoveTo x y # ops
                       @ [ClosePath, FillStyle (Color ''rgba(0, 217, 255, 0.1)''), Fill,
                          StrokeStyle CYAN_DIM, LineWidth 1, Stroke], None)))
          else ([], None))"

text \<open>Lines 765-798: the four corner brackets of a box.\<close>

definition corner_brackets :: "jsnum \<Rightarrow> jsnum \<Rightarrow> jsnum \<Rightarrow> jsnum \<Rightarrow> canvas_op list" where
  "corner_brackets x1 y1 x2 y2 =
     (let bw = js_minus x2 x1; bh = js_minus y2 y1;
          cornerLen = js_mul (math_min bw bh) (Num (2 / 10));
          clampedLen = math_max (Num 8) (math_min cornerLen (Num 30))
      in [StrokeStyle CYAN, LineWidth 2, LineCap ''square'',
          BeginPath, MoveTo x1 (js_plus y1 clampedLen), LineTo x1 y1,
          LineTo (js_plus x1 clampedLen) y1, Stroke,
          BeginPath, MoveTo (js_minus x2 clampedLen) y1, LineTo x2 y1,
          LineTo x2 (js_plus y1 clampedLen), Stroke,
          BeginPath, MoveTo x1 (js_minus y2 clampedLen), LineTo x1 y2,
          LineTo (js_plus x1 clampedLen) y2, Stroke,
          BeginPath, MoveTo (js_minus x2 clampedLen) y2, LineTo x2 y2,
          LineTo x2 (js_minus y2 clampedLen), Stroke])"

text \<open>The text \<^verbatim>\<open>`${d.class} ${Math.round(d.confidence * 100)}%`\<close> of a label.\<close>

definition label_text :: "env \<Rightarrow> jsval \<Rightarrow> jsval \<Rightarrow> string" where
  "label_text E cls cf =
     to_string E cls @ '' '' @ num_str E (math_round (js_mul (to_number E cf) (Num 100))) @ ''%''"

definition prop_or_undefined :: "jsval \<Rightarrow> string \<Rightarrow> jsval" where
  "prop_or_undefined v k = (case get_prop v k of Inl e \<Rightarrow> JUndefined | Inr x \<Rightarrow> x)"

text \<open>Lines 800-819: the label chip and the fill of the box. \<^verbatim>\<open>det\<close> is not
  \<^verbatim>\<open>null\<close> here, line 742 has read a property of it.\<close>

definition label_and_fill :: "env \<Rightarrow> jsval \<Rightarrow> jsnum \<Rightarrow> jsnum \<Rightarrow> jsnum \<Rightarrow> jsnum \<Rightarrow> canvas_op list" where
  "label_and_fill E det x1 y1 x2 y2 =
     (let bw = js_minus x2 x1; bh = js_minus y2 y1;
          label = label_text E (prop_or_undefined det ''class'') (prop_or_undefined det ''confidence'');
          tw = text_width E label;
          labelH = Num 18;
          labelY = js_minus (js_minus y1 labelH) (Num 4)
      in [Font ''500 11px 'JetBrains Mono', monospace'',
          FillStyle (Color ''rgba(0, 0, 0, 0.6)''),
          FillRect x1 labelY (js_plus tw (Num 12)) labelH,
          StrokeStyle CYAN, LineWidth 1,
          StrokeRect x1 labelY (js_plus tw (Num 12)) labelH,
          FillStyle (Color CYAN), TextBaseline ''middle'',
          FillText label (js_plus x1 (Num 6)) (js_plus labelY (js_div labelH (Num 2))),
          FillStyle (Color CYAN_FILL),
          FillRect x1 y1 bw bh])"

text \<open>One round of the loop of \<^verbatim>\<open>drawDetections\<close> (lines 742-819).\<close>

definition draw_detection :: "env \<Rightarrow> jsnum \<Rightarrow> jsnum \<Rightarrow> jsval \<Rightarrow> canvas_op list \<times> error option" where
  "draw_detection E cw ch det =
     (case bbox_px E cw ch det of
        Inl e \<Rightarrow> ([], Some e)
      | Inr (x1, y1, x2, y2) \<Rightarrow>
          (case draw_polygon E cw ch det of
             (ops, Some e) \<Rightarrow> (ops, Some e)
           | (ops, None) \<Rightarrow>
               (ops @ corner_brackets x1 y1 x2 y2 @ label_and_fill E det x1 y1 x2 y2, None)))"

fun draw_detection_list :: "env \<Rightarrow> jsnum \<Rightarrow> jsnum \<Rightarrow> jsval list \<Rightarrow> canvas_op list \<times> error option" where
  "draw_detection_list E cw ch [] = ([], None)"
| "draw_detection_list E cw ch (det # dets) =
     (case draw_detection E cw ch det of
        (ops, Some e) \<Rightarrow> (ops, Some e)
      | (ops, None) \<Rightarrow>
          (let (ops', r) = draw_detection_list E cw ch dets in (ops @ ops', r)))"

text \<open>\<^verbatim>\<open>drawDetections\<close> (lines 740-821), on the value of \<^verbatim>\<open>currentDetections\<close>.\<close>

definition drawDetections :: "env \<Rightarrow> jsnum \<Rightarrow> jsnum \<Rightarrow> jsval \<Rightarrow> canvas_op list \<times> error option" where
  "drawDetections E cw ch cd =
     (case iterate cd of
        Inl e \<Rightarrow> ([], Some e)
      | Inr dets \<Rightarrow> draw_detection_list E cw ch dets)"

text \<open>One round of the \<^verbatim>\<open>forEach\<close> of \<^verbatim>\<open>drawClassifications\<close> (lines 835-860).\<close>

definition draw_classification :: "env \<Rightarrow> jsnum \<Rightarrow> jsnum \<Rightarrow> jsval \<Rightarrow> nat \<Rightarrow> canvas_op list \<times> error option" where
  "draw_classification E startX startY cls i =
     (case get_prop cls ''confidence'' of
        Inl e \<Rightarrow> ([], Some e)
      | Inr cf \<Rightarrow>
          (let y = js_plus startY (Num (real i * 32));
               barW = Num 180;
               fillW = js_mul barW (to_number E cf)
           in ([FillStyle (Color ''rgba(0, 217, 255, 0.06)''),
                FillRect startX y barW (Num 20),
                FillStyle (Color ''rgba(0, 217, 255, 0.25)''),
                FillRect startX y fillW (Num 20),
                StrokeStyle CYAN_DIM, LineWidth 1,
                StrokeRect startX y barW (Num 20),
                FillStyle (Color CYAN),
                Font ''500 11px 'JetBrains Mono', monospace'',
                TextBaseline ''middle'',
                FillText (label_text E (prop_or_undefined cls ''class'') cf)
                  (js_plus (js_plus startX barW) (Num 10)) (js_plus y (Num 10))], None)))"

fun draw_classification_list :: "env \<Rightarrow> jsnum \<Rightarrow> jsnum \<Rightarrow> jsval list \<Rightarrow> nat \<Rightarrow> canvas_op list \<times> error option" where
  "draw_classification_list E startX startY [] i = ([], None)"
| "draw_classification_list E startX startY (cls # rest) i =
     (case draw_classification E startX startY cls i of
        (ops, Some e) \<Rightarrow> (ops, Some e)
      | (ops, None) \<Rightarrow>
          (let (ops', r) = draw_classification_list E startX startY rest (i + 1)
           in (ops @ ops', r)))"

text \<open>\<^verbatim>\<open>drawClassifications\<close> (lines 823-862). Only an array has \<^verbatim>\<open>forEach\<close>.\<close>

definition drawClassifications :: "env \<Rightarrow> jsnum \<Rightarrow> jsnum \<Rightarrow> jsval \<Rightarrow> canvas_op list \<times> error option" where
  "drawClassifications E cw ch cd =
     (case get_prop cd ''length'' of
        Inl e \<Rightarrow> ([], Some e)
      | Inr n \<Rightarrow>
          if n = JNumber (Num 0) then ([], None)
          else
            (let startY = js_mul ch (Num (15 / 100)); startX = js_mul cw (Num (5 / 100));
                 head = [Font ''500 10px 'JetBrains Mono', monospace'',
                         FillStyle (Color CYAN_DIM), TextBaseline ''top'',
                         FillText ''CLASSIFICATION'' startX (js_minus startY (Num 20))]
             in case cd of
                  JArray cs \<Rightarrow>
                    (let (ops, r) = draw_classification_list E startX startY cs 0
                     in (head @ ops, r))
                | _ \<Rightarrow> (head, Some TypeError)))"

text \<open>\<^verbatim>\<open>drawScanline\<close> (lines 864-872): the new \<^verbatim>\<open>scanlineY\<close>, what is drawn, and the
  TypeError of \<^verbatim>\<open>createLinearGradient\<close> when a coordinate is not finite.\<close>

definition drawScanline :: "jsnum \<Rightarrow> jsnum \<Rightarrow> jsnum \<Rightarrow> jsnum \<times> canvas_op list \<times> error option" where
  "drawScanline cw ch y0 =
     (let y = js_rem (js_plus y0 (Num (3 / 2))) ch in
      if y = NaN then (y, [], Some TypeError)
      else (y,
            [FillStyle (LinearGradient (Num 0) (js_minus y (Num 2)) (Num 0) (js_plus y (Num 2))
                          [(0, ''rgba(0, 217, 255, 0)''), (1 / 2, ''rgba(0, 217, 255, 0.12)''),
                           (1, ''rgba(0, 217, 255, 0)'')]),
             FillRect (Num 0) (js_minus y (Num 2)) cw (Num 4)], None))"

text \<open>\<^verbatim>\<open>drawFrameBorder\<close> (lines 874-908).\<close>

definition drawFrameBorder :: "jsnum \<Rightarrow> jsnum \<Rightarrow> canvas_op list" where
  "drawFrameBorder cw ch =
     (let inset = Num 8; cornerLen = Num 40 in
      [StrokeStyle ''rgba(0, 217, 255, 0.15)'', LineWidth 1, LineCap ''square'',
       BeginPath, MoveTo inset (js_plus inset cornerLen), LineTo inset inset,
       LineTo (js_plus inset cornerLen) inset, Stroke,
       BeginPath, MoveTo (js_minus (js_minus cw inset) cornerLen) inset,
       LineTo (js_minus cw inset) inset,
       LineTo (js_minus cw inset) (js_plus inset cornerLen), Stroke,
       BeginPath, MoveTo inset (js_minus (js_minus ch inset) cornerLen),
       LineTo inset (js_minus ch inset),
       LineTo (js_plus inset cornerLen) (js_minus ch inset), Stroke,
       BeginPath, MoveTo (js_minus (js_minus cw inset) cornerLen) (js_minus ch inset),
       LineTo (js_minus cw inset) (js_minus ch inset),
       LineTo (js_minus cw inset) (js_minus (js_minus ch inset) cornerLen), Stroke])"

text \<open>The branch of lines 726-730.\<close>

definition draw_mode :: "env \<Rightarrow> jsnum \<Rightarrow> jsnum \<Rightarrow> vstate \<Rightarrow> canvas_op list \<times> error option" where
  "draw_mode E cw ch s =
     (if currentMode s = JString ''classify''
      then drawClassifications E cw ch (currentDetections s)
      else drawDetections E cw ch (currentDetections s))"

text \<open>
  \<^verbatim>\<open>render\<close> (lines 714-736), one frame of the loop: \<open>w\<close> and \<open>h\<close> are the client
  size of the canvas's parent, \<open>r\<close> the handle the closing
  \<^verbatim>\<open>requestAnimationFrame\<close> returns. A throw ends the frame before the loop is
  re-armed.
\<close>

definition render :: "env \<Rightarrow> nat \<Rightarrow> nat \<Rightarrow> handle \<Rightarrow> vstate \<Rightarrow> effect list \<times> vstate" where
  "render E w h r s =
     (if \<not> active s then ([], s)
      else
        (let cw = Num (real w); ch = Num (real h);
             s1 = (if canvas_width s \<noteq> w \<or> canvas_height s \<noteq> h
                   then s\<lparr>canvas_width := w, canvas_height := h\<rparr> else s);
             clear = [Draw (ClearRect (Num 0) (Num 0) cw ch)]
         in case draw_mode E cw ch s1 of
              (ops, Some e) \<Rightarrow> (clear @ map Draw ops @ [Uncaught e], s1)
            | (ops, None) \<Rightarrow>
                (case drawScanline cw ch (scanlineY s1) of
                   (y, ops2, Some e) \<Rightarrow>
                     (clear @ map Draw ops @ map Draw ops2 @ [Uncaught e], s1\<lparr>scanlineY := y\<rparr>)
                 | (y, ops2, None) \<Rightarrow>
                     (clear @ map Draw ops @ map Draw ops2 @ map Draw (drawFrameBorder cw ch)
                      @ [RequestAnimationFrame r],
                      s1\<lparr>scanlineY := y, rafId := Some r\<rparr>))))"

definition startHUDLoop :: "handle \<Rightarrow> vstate \<Rightarrow> effect list \<times> vstate" where
  "startHUDLoop r s = ([RequestAnimationFrame r], s\<lparr>rafId := Some r\<rparr>)"

section \<open>The socket's handlers (lines 633-652)\<close>

text \<open>\<^verbatim>\<open>ws.onopen\<close> of socket \<open>i\<close>: it sends the token of its closure on the socket
  the variable \<^verbatim>\<open>ws\<close> holds now, and throws when that is \<^verbatim>\<open>null\<close>.\<close>

definition ws_onopen :: "nat \<Rightarrow> vstate \<Rightarrow> effect list \<times> vstate" where
  "ws_onopen i s =
     (case ws s of
        None \<Rightarrow> ([Uncaught TypeError], s)
      | Some j \<Rightarrow> (socket_send j (AuthMsg (auth_token (sockets s ! i))) s, s))"

text \<open>
  \<^verbatim>\<open>ws.onmessage\<close>. \<open>parsed\<close> is what \<^verbatim>\<open>JSON.parse(event.data)\<close> returns, \<open>None\<close>
  when it throws. Everything the \<^verbatim>\<open>try\<close> block throws is caught, and line 644 runs in
  every case.
\<close>

definition ws_onmessage :: "env \<Rightarrow> real \<Rightarrow> jsval option \<Rightarrow> vstate \<Rightarrow> effect list \<times> vstate" where
  "ws_onmessage E now parsed s =
     (let s1 = (case parsed of
                  None \<Rightarrow> s
                | Some msg \<Rightarrow>
                    (case get_prop msg ''type'' of
                       Inl e \<Rightarrow> s
                     | Inr t \<Rightarrow>
                         if t = JString ''vision.result''
                         then snd (handleVisionResult E now msg s)
                         else s))
      in ([], s1\<lparr>awaitingResponse := False\<rparr>))"

definition ws_onclose :: "vstate \<Rightarrow> effect list \<times> vstate" where
  "ws_onclose s = ([], s\<lparr>ws := None, awaitingResponse := False\<rparr>)"

definition ws_onerror :: "vstate \<Rightarrow> effect list \<times> vstate" where
  "ws_onerror s =
     (case ws s of
        None \<Rightarrow> ([], s)
      | Some j \<Rightarrow> ([WsCloseCall j], socket_close j s))"

section \<open>Camera control (lines 559-618)\<close>

text \<open>
  \<^verbatim>\<open>connectVisionWS\<close> (lines 622-653). \<open>fetched\<close> is the body of the token
  response as \<^verbatim>\<open>resp.json()\<close> gives it, \<open>None\<close> when \<^verbatim>\<open>fetch\<close> or \<^verbatim>\<open>json\<close>
  rejects; \<open>ctor_ok\<close> says that \<^verbatim>\<open>new WebSocket(wsUrl)\<close> does not throw. Both
  \<^verbatim>\<open>catch\<close> clauses return.
\<close>

definition connectVisionWS :: "jsval option \<Rightarrow> bool \<Rightarrow> vstate \<Rightarrow> effect list \<times> vstate" where
  "connectVisionWS fetched ctor_ok s =
     (case fetched of
        None \<Rightarrow> ([], s)
      | Some data \<Rightarrow>
          (case get_prop data ''token'' of
             Inl e \<Rightarrow> ([], s)
           | Inr t \<Rightarrow>
               if \<not> ctor_ok then ([], s)
               else
                 (let i = length (sockets s) in
                  ([NewWebSocket i],
                   s\<lparr>ws := Some i,
                     sockets := sockets s
                       @ [\<lparr>readyState = CONNECTING, auth_token = js_or t (JString [])\<rparr>]\<rparr>))))"

text \<open>
  \<^verbatim>\<open>startCamera\<close>, run as one step: what other handlers do between its
  \<^verbatim>\<open>await\<close>s is not modelled. \<open>gum\<close> is the stream of \<^verbatim>\<open>getUserMedia\<close> (its
  tracks), \<open>None\<close> when it rejects; \<open>t\<close> and \<open>r\<close> are the handles of the timer and
  of the first animation frame.
\<close>

definition startCamera :: "nat list option \<Rightarrow> jsval option \<Rightarrow> bool \<Rightarrow> handle \<Rightarrow> handle \<Rightarrow> vstate \<Rightarrow> effect list \<times> vstate" where
  "startCamera gum fetched ctor_ok t r s =
     (case gum of
        None \<Rightarrow> ([ConsoleError], s)
      | Some tracks \<Rightarrow>
          (let s1 = s\<lparr>stream := Some tracks, active := True\<rparr>;
               (fx1, s2) = connectVisionWS fetched ctor_ok s1;
               (fx2, s3) = startSendLoop t s2;
               (fx3, s4) = startHUDLoop r s3
           in (fx1 @ fx2 @ fx3, s4)))"

text \<open>\<^verbatim>\<open>stopCamera\<close> (lines 582-613).\<close>

definition stopCamera :: "vstate \<Rightarrow> effect list \<times> vstate" where
  "stopCamera s =
     (let fx_timer = (case sendTimer s of None \<Rightarrow> [] | Some t \<Rightarrow> [ClearInterval t]);
          fx_raf = (case rafId s of None \<Rightarrow> [] | Some r \<Rightarrow> [CancelAnimationFrame r]);
          fx_tracks = (case stream s of None \<Rightarrow> [] | Some tracks \<Rightarrow> map TrackStop tracks);
          fx_ws = (case ws s of None \<Rightarrow> [] | Some j \<Rightarrow> [WsCloseCall j]);
          s1 = (case ws s of None \<Rightarrow> s | Some j \<Rightarrow> socket_close j s)
      in (fx_timer @ fx_raf @ fx_tracks @ fx_ws
          @ [Draw (ClearRect (Num 0) (Num 0) (Num (real (canvas_width s)))
                     (Num (real (canvas_height s))))],
          s1\<lparr>active := False, sendTimer := None, rafId := None, stream := None, ws := None,
             currentDetections := JArray [], detections_html := [],
             fps_text := JString ''0'', inference_text := JString ''0ms'',
             objects_text := JString ''0'', confidence_text := JString ''0%''\<rparr>))"

text \<open>The start button (lines 615-618).\<close>

definition startBtn_click :: "nat list option \<Rightarrow> jsval option \<Rightarrow> bool \<Rightarrow> handle \<Rightarrow> handle \<Rightarrow> vstate \<Rightarrow> effect list \<times> vstate" where
  "startBtn_click gum fetched ctor_ok t r s =
     (if active s then stopCamera s else startCamera gum fetched ctor_ok t r s)"

section \<open>Mode, confidence, view change (lines 944-967)\<close>

text \<open>The click on a mode button; \<open>m\<close> is the button's \<^verbatim>\<open>dataset.mode\<close>.\<close>

definition modeBtn_click :: "jsval \<Rightarrow> vstate \<Rightarrow> effect list \<times> vstate" where
  "modeBtn_click m s = ([], s\<lparr>mode := m, currentDetections := JArray [], detections_html := []\<rparr>)"

definition confSlider_input :: "env \<Rightarrow> string \<Rightarrow> vstate \<Rightarrow> effect list \<times> vstate" where
  "confSlider_input E v s = ([], s\<lparr>confThreshold := js_div (parse_int E v) (Num 100)\<rparr>)"

definition viewchange :: "jsval \<Rightarrow> vstate \<Rightarrow> effect list \<times> vstate" where
  "viewchange view s = (if view \<noteq> JString ''vision'' \<and> active s then stopCamera s else ([], s))"

section \<open>Events\<close>

text \<open>
  The client runs on one event loop: every handler runs to its end before the next
  event. An event of a socket names the socket; the browser sets the socket's
  \<^verbatim>\<open>readyState\<close> before it calls the handler (open when it opens, closed when the
  connection has failed or is closed). Events of sockets that were never made are
  ignored.
\<close>

datatype event =
    StartClick "nat list option" "jsval option" bool handle handle
  | Tick string
  | Frame nat nat handle
  | SockOpen nat
  | SockMessage nat real "jsval option"
  | SockError nat
  | SockClose nat
  | ModeClick jsval
  | ConfInput string
  | ViewChange jsval

definition step :: "env \<Rightarrow> event \<Rightarrow> vstate \<Rightarrow> effect list \<times> vstate" where
  "step E ev s =
     (case ev of
        StartClick gum fetched ctor_ok t r \<Rightarrow> startBtn_click gum fetched ctor_ok t r s
      | Tick b64 \<Rightarrow> sendLoop_tick b64 s
      | Frame w h r \<Rightarrow> render E w h r s
      | SockOpen i \<Rightarrow>
          if i < length (sockets s) then ws_onopen i (set_ready i OPEN s) else ([], s)
      | SockMessage i now parsed \<Rightarrow>
          if i < length (sockets s) then ws_onmessage E now parsed s else ([], s)
      | SockError i \<Rightarrow>
          if i < length (sockets s) then ws_onerror (set_ready i CLOSED s) else ([], s)
      | SockClose i \<Rightarrow>
          if i < length (sockets s) then ws_onclose (set_ready i CLOSED s) else ([], s)
      | ModeClick m \<Rightarrow> modeBtn_click m s
      | ConfInput v \<Rightarrow> confSlider_input E v s
      | ViewChange view \<Rightarrow> viewchange view s)"

fun run :: "env \<Rightarrow> event list \<Rightarrow> vstate \<Rightarrow> effect list \<times> vstate" where
  "run E [] s = ([], s)"
| "run E (ev # evs) s =
     (let (fx, s1) = step E ev s; (fx', s2) = run E evs s1 in (fx @ fx', s2))"

text \<open>The frame messages among the effects of a run.\<close>

fun is_frame_send :: "effect \<Rightarrow> bool" where
  "is_frame_send (WsSend i (FrameMsg d m c)) = True"
| "is_frame_send _ = False"

definition frames_sent :: "effect list \<Rightarrow> nat" where
  "frames_sent fx = length (filter is_frame_send fx)"

section \<open>The initial state and an environment for the examples\<close>

text \<open>
  The variables as lines 535-555 initialise them; \<open>t0\<close> is the value of
  \<^verbatim>\<open>performance.now()\<close> at line 550. The canvas has the default size of a canvas
  element. The page's markup is not part of the sources: the stats elements and the panel
  start as \<^verbatim>\<open>stopCamera\<close> leaves them.
\<close>

definition initial :: "real \<Rightarrow> vstate" where
  "initial t0 =
     \<lparr>stream = None, ws = None, active = False, mode = JString ''detect'',
      confThreshold = Num (25 / 100), awaitingResponse = False, sendTimer = None,
      rafId = None, currentDetections = JArray [], currentMode = JString ''detect'',
      frameCount = 0, lastFpsTime = t0, currentFps = 0, lastInferenceMs = JNumber (Num 0),
      scanlineY = Num 0, canvas_width = 300, canvas_height = 150,
      fps_text = JString ''0'', inference_text = JString ''0ms'',
      objects_text = JString ''0'', confidence_text = JString ''0%'',
      detections_html = [], sockets = []\<rparr>"

text \<open>An environment for the examples: exact on the natural numbers and their decimal
  numerals, arbitrary elsewhere. The theorems hold for every environment.\<close>

definition sample_env :: env where
  "sample_env =
     \<lparr>num_str = (\<lambda>n. case n of
                        NaN \<Rightarrow> ''NaN''
                      | Num r \<Rightarrow> if 0 \<le> r \<and> r = of_int \<lfloor>r\<rfloor> then show_nat (nat \<lfloor>r\<rfloor>) else ''?''),
      str_num = (\<lambda>s. if s \<noteq> [] \<and> list_all is_digit s then Num (real (parse_nat s)) else NaN),
      parse_int = (\<lambda>s. if s \<noteq> [] \<and> list_all is_digit s then Num (real (parse_nat s)) else NaN),
      text_width = (\<lambda>s. Num (7 * real (length s)))\<rparr>"

section \<open>Notions used by the properties\<close>

text \<open>\<^verbatim>\<open>ws && ws.readyState === WebSocket.OPEN\<close>: the variable holds an open socket.\<close>

definition ws_is_open :: "vstate \<Rightarrow> bool" where
  "ws_is_open s = (case ws s of None \<Rightarrow> False | Some i \<Rightarrow> socket_is_open s i)"

text \<open>The events whose handlers clear \<^verbatim>\<open>awaitingResponse\<close>: an inbound message and the
  close of a socket.\<close>

fun is_response :: "event \<Rightarrow> bool" where
  "is_response (SockMessage i now parsed) = True"
| "is_response (SockClose i) = True"
| "is_response _ = False"


fun is_start_click :: "event \<Rightarrow> bool" where
  "is_start_click (StartClick gum fetched ok t r) = True"
| "is_start_click _ = False"

text \<open>A handler's outcome that sends no frame and leaves \<^verbatim>\<open>awaitingResponse\<close> as it was.\<close>

definition quiet :: "effect list \<times> vstate \<Rightarrow> vstate \<Rightarrow> bool" where
  "quiet res s = (frames_sent (fst res) = 0 \<and> awaitingResponse (snd res) = awaitingResponse s)"

text \<open>A classification as the service sends it.\<close>

definition classification :: "string \<Rightarrow> real \<Rightarrow> jsval" where
  "classification c f = JObject [(''class'', JString c), (''confidence'', JNumber (Num f))]"

text \<open>A session that is ready to send: the camera was started from the initial state,
  the token was fetched, and the socket has opened.\<close>

definition session_ready :: vstate where
  "session_ready =
     snd (run sample_env
            [StartClick (Some [0]) (Some (JObject [(''token'', JString ''tok'')])) True
               (Handle 0) (Handle 1),
             SockOpen 0]
            (initial 0))"


text \<open>The detection of the design's example: a person, confidence 0.92, in the box
  (0.1, 0.1)-(0.5, 0.6).\<close>

definition sample_detection :: jsval where
  "sample_detection =
     JObject [(''class'', JString ''person''), (''confidence'', JNumber (Num (92 / 100))),
              (''bbox'', JArray [JNumber (Num (1 / 10)), JNumber (Num (1 / 10)),
                                JNumber (Num (5 / 10)), JNumber (Num (6 / 10))])]"








text \<open>A detect-mode result of the service with the given detections.\<close>

definition sample_result :: "jsval list \<Rightarrow> jsval" where
  "sample_result ds =
     JObject [(''type'', JString ''vision.result''), (''mode'', JString ''detect''),
              (''inference_ms'', JNumber (Num 12)), (''detections'', JArray ds)]"

text \<open>
  What the panel is to show for a list of (class, confidence) pairs: the number of
  occurrences of a class, and the largest of its confidences (and of 0, the value
  \<^verbatim>\<open>maxConf\<close> starts from).
\<close>

definition occurrences :: "string \<Rightarrow> (string \<times> real) list \<Rightarrow> nat" where
  "occurrences k cfs = length (filter (\<lambda>cf. fst cf = k) cfs)"

definition best_confidence :: "string \<Rightarrow> (string \<times> real) list \<Rightarrow> real" where
  "best_confidence k cfs = fold max (map snd (filter (\<lambda>cf. fst cf = k) cfs)) 0"

text \<open>The own properties of \<^verbatim>\<open>groups\<close> tally the pairs: one group for each class,
  with its number of occurrences and its largest confidence.\<close>

definition tallied :: "(string \<times> group) list \<Rightarrow> (string \<times> real) list \<Rightarrow> bool" where
  "tallied groups cfs =
     (distinct (map fst groups) \<and> fst ` set groups = fst ` set cfs
      \<and> (\<forall>e \<in> set groups.
            count (snd e) = occurrences (fst e) cfs
            \<and> maxConf (snd e) = Num (best_confidence (fst e) cfs)))"

text \<open>A detection whose class is the string and whose confidence is the number of the
  pair.\<close>

definition reads_as :: "jsval \<Rightarrow> string \<times> real \<Rightarrow> bool" where
  "reads_as d cf =
     (get_prop d ''class'' = Inr (JString (fst cf))
      \<and> get_prop d ''confidence'' = Inr (JNumber (Num (snd cf))))"

text \<open>A detection whose class name is the name of a property that every object
  inherits.\<close>

definition constructor_detection :: jsval where
  "constructor_detection =
     JObject [(''class'', JString ''constructor''), (''confidence'', JNumber (Num (9 / 10))),
              (''bbox'', JArray [JNumber (Num (2 / 10)), JNumber (Num (2 / 10)),
                                JNumber (Num (4 / 10)), JNumber (Num (4 / 10))])]"

section \<open>Shared lemmas\<close>

lemmas handler_defs =
  step_def startBtn_click_def startCamera_def stopCamera_def connectVisionWS_def
  startSendLoop_def startHUDLoop_def sendLoop_tick_def ws_onopen_def ws_onclose_def
  ws_onerror_def ws_onmessage_def modeBtn_click_def confSlider_input_def viewchange_def
  socket_send_def socket_close_def set_ready_def socket_is_open_def js_or_def

lemma session_ready_eq:
  "session_ready =
     (initial 0)\<lparr>stream := Some [0], ws := Some 0, active := True,
                 sendTimer := Some (Handle 0), rafId := Some (Handle 1),
                 sockets := [\<lparr>readyState = OPEN, auth_token = JString ''tok''\<rparr>]\<rparr>"
  by (simp add: session_ready_def initial_def handler_defs Let_def)

lemma run_Cons_snd: "snd (run E (ev # evs) s) = snd (run E evs (snd (step E ev s)))"
  by (simp split: prod.splits)

lemma run_Cons_fst:
  "fst (run E (ev # evs) s) = fst (step E ev s) @ fst (run E evs (snd (step E ev s)))"
  by (simp split: prod.splits)

lemma frames_sent_append: "frames_sent (a @ b) = frames_sent a + frames_sent b"
  by (simp add: frames_sent_def)

lemma frames_sent_Nil: "frames_sent [] = 0"
  by (simp add: frames_sent_def)

lemma frames_sent_Cons:
  "frames_sent (x # xs) = (if is_frame_send x then 1 else 0) + frames_sent xs"
  by (simp add: frames_sent_def)

lemmas frames_simps = frames_sent_Nil frames_sent_Cons frames_sent_append

lemma frames_sent_Draw: "frames_sent (map Draw ops) = 0"
  by (induction ops) (simp_all add: frames_simps)

lemma frames_sent_TrackStop: "frames_sent (map TrackStop ts) = 0"
  by (induction ts) (simp_all add: frames_simps)

lemma frames_sent_auth: "frames_sent (socket_send j (AuthMsg t) s) = 0"
  by (simp add: socket_send_def frames_simps split: ready.splits)

lemma awaiting_socket_close: "awaitingResponse (socket_close j s) = awaitingResponse s"
  by (simp add: socket_close_def)

lemma awaiting_set_ready: "awaitingResponse (set_ready j r s) = awaitingResponse s"
  by (simp add: set_ready_def)

subsection \<open>Handlers that neither send a frame nor touch the flag\<close>

lemma quiet_render: "quiet (render E w h r s) s"
  by (simp add: quiet_def render_def Let_def frames_simps frames_sent_Draw
      split: prod.splits option.splits)

lemma quiet_stopCamera: "quiet (stopCamera s) s"
  by (simp add: quiet_def stopCamera_def Let_def frames_simps frames_sent_TrackStop
      awaiting_socket_close split: option.splits)

lemma quiet_startCamera: "quiet (startCamera gum fetched ok t r s) s"
  by (simp add: quiet_def startCamera_def connectVisionWS_def startSendLoop_def startHUDLoop_def
      Let_def frames_simps split: option.splits sum.splits prod.splits)

lemma quiet_onopen: "quiet (ws_onopen i s) s"
  by (simp add: quiet_def ws_onopen_def frames_sent_auth frames_simps split: option.splits)

lemma quiet_onerror: "quiet (ws_onerror s) s"
  by (simp add: quiet_def ws_onerror_def frames_simps awaiting_socket_close split: option.splits)

lemma quiet_step:
  assumes "\<not> is_response ev" and "\<forall>b. ev \<noteq> Tick b"
  shows "quiet (step E ev s) s"
proof (cases ev)
  case (StartClick gum fetched ok t r)
  then show ?thesis
    using quiet_stopCamera [of s] quiet_startCamera [of gum fetched ok t r s]
    by (simp add: step_def startBtn_click_def)
next
  case (Tick b)
  then show ?thesis using assms by simp
next
  case (Frame w h r)
  then show ?thesis using quiet_render by (simp add: step_def)
next
  case (SockOpen i)
  then show ?thesis
    using quiet_onopen [of i "set_ready i OPEN s"]
    by (simp add: step_def quiet_def awaiting_set_ready frames_simps)
next
  case (SockMessage i now parsed)
  then show ?thesis using assms by simp
next
  case (SockError i)
  then show ?thesis
    using quiet_onerror [of "set_ready i CLOSED s"]
    by (simp add: step_def quiet_def awaiting_set_ready frames_simps)
next
  case (SockClose i)
  then show ?thesis using assms by simp
next
  case (ModeClick m)
  then show ?thesis by (simp add: step_def modeBtn_click_def quiet_def frames_simps)
next
  case (ConfInput v)
  then show ?thesis by (simp add: step_def confSlider_input_def quiet_def frames_simps)
next
  case (ViewChange v)
  then show ?thesis
    using quiet_stopCamera [of s] by (simp add: step_def viewchange_def quiet_def frames_simps)
qed

subsection \<open>The capture tick\<close>

lemma tick_skip:
  "\<not> active s \<or> awaitingResponse s \<or> \<not> ws_is_open s \<Longrightarrow> sendLoop_tick b s = ([], s)"
  by (auto simp: sendLoop_tick_def ws_is_open_def split: option.splits)

lemma tick_send:
  "active s \<Longrightarrow> \<not> awaitingResponse s \<Longrightarrow> ws s = Some i \<Longrightarrow> socket_is_open s i \<Longrightarrow>
   sendLoop_tick b s =
     ([WsSend i (FrameMsg b (mode s) (confThreshold s))], s\<lparr>awaitingResponse := True\<rparr>)"
  by (simp add: sendLoop_tick_def socket_send_def socket_is_open_def)

lemma tick_cases:
  "sendLoop_tick b s = ([], s) \<or>
   (\<not> awaitingResponse s \<and> frames_sent (fst (sendLoop_tick b s)) = 1
    \<and> awaitingResponse (snd (sendLoop_tick b s)))"
  by (auto simp: sendLoop_tick_def socket_send_def socket_is_open_def frames_simps
      split: option.splits)

lemma step_bound:
  assumes "\<not> is_response ev"
  shows "frames_sent (fst (step E ev s)) \<le> (if awaitingResponse s then 0 else 1)
         \<and> (awaitingResponse s \<or> frames_sent (fst (step E ev s)) = 1
              \<longrightarrow> awaitingResponse (snd (step E ev s)))"
proof (cases "\<exists>b. ev = Tick b")
  case True
  then obtain b where ev: "ev = Tick b" by blast
  show ?thesis using tick_cases [of b s] by (auto simp: ev step_def frames_simps)
next
  case False
  then have "quiet (step E ev s) s" using assms quiet_step by blast
  then show ?thesis by (simp add: quiet_def)
qed

lemma run_bound:
  "list_all (\<lambda>ev. \<not> is_response ev) evs \<Longrightarrow>
   frames_sent (fst (run E evs s)) \<le> (if awaitingResponse s then 0 else 1)"
proof (induction evs arbitrary: s)
  case Nil
  then show ?case by (simp add: frames_simps)
next
  case (Cons ev evs)
  define s1 where "s1 = snd (step E ev s)"
  have nr: "\<not> is_response ev" and rest: "list_all (\<lambda>ev. \<not> is_response ev) evs"
    using Cons.prems by simp_all
  have b1: "frames_sent (fst (step E ev s)) \<le> (if awaitingResponse s then 0 else 1)"
    and b2: "awaitingResponse s \<or> frames_sent (fst (step E ev s)) = 1 \<longrightarrow> awaitingResponse s1"
    using step_bound [OF nr, of E s] by (simp_all add: s1_def)
  have b3: "frames_sent (fst (run E evs s1)) \<le> (if awaitingResponse s1 then 0 else 1)"
    using Cons.IH [OF rest, of s1] by simp
  show ?case
    using b1 b2 b3
    by (auto simp: run_Cons_fst frames_sent_append s1_def simp del: run.simps(2) split: if_splits)
qed

section \<open>Backpressure: one frame in flight\<close>

text \<open>
  C1. On a capture tick, when the session is inactive, or a request is in flight, or the
  variable \<^verbatim>\<open>ws\<close> holds no open socket, nothing is sent and the state is unchanged;
  otherwise exactly one frame message is sent, carrying the mode and threshold, and
  \<^verbatim>\<open>awaitingResponse\<close> becomes true. Hence in every run of events without an inbound
  message or a socket close, whatever the other events are, at most one frame is sent,
  and none when a request was in flight at its start.
\<close>

theorem tick_sends_at_most_one_frame:
  "(\<not> active s \<or> awaitingResponse s \<or> \<not> ws_is_open s \<longrightarrow> sendLoop_tick b s = ([], s))
   \<and> (active s \<and> \<not> awaitingResponse s \<and> ws s = Some i \<and> socket_is_open s i \<longrightarrow>
        sendLoop_tick b s =
          ([WsSend i (FrameMsg b (mode s) (confThreshold s))], s\<lparr>awaitingResponse := True\<rparr>))
   \<and> (list_all (\<lambda>ev. \<not> is_response ev) evs \<longrightarrow>
        frames_sent (fst (run E evs s)) \<le> (if awaitingResponse s then 0 else 1))"
  using tick_skip [of s b] tick_send [of s i b] run_bound [of evs E s] by blast

theorem tick_sends_at_most_one_frame_witness:
  "\<not> active (initial 0)
   \<and> sendLoop_tick ''AAAA'' (initial 0) = ([], initial 0)
   \<and> active session_ready \<and> \<not> awaitingResponse session_ready
   \<and> ws session_ready = Some 0 \<and> socket_is_open session_ready 0
   \<and> sendLoop_tick ''AAAA'' session_ready =
       ([WsSend 0 (FrameMsg ''AAAA'' (JString ''detect'') (Num (1 / 4)))],
        session_ready\<lparr>awaitingResponse := True\<rparr>)
   \<and> list_all (\<lambda>ev. \<not> is_response ev)
        [Tick ''AAAA'', Frame 640 480 (Handle 2), Tick ''BBBB'',
         ModeClick (JString ''classify''), Tick ''CCCC'']
   \<and> frames_sent (fst (run sample_env
        [Tick ''AAAA'', Frame 640 480 (Handle 2), Tick ''BBBB'',
         ModeClick (JString ''classify''), Tick ''CCCC''] session_ready)) \<le> 1"
proof -
  have a: "\<not> active (initial 0)" by (simp add: initial_def)
  have b: "active session_ready \<and> \<not> awaitingResponse session_ready
           \<and> ws session_ready = Some 0 \<and> socket_is_open session_ready 0"
    by (simp add: session_ready_eq initial_def socket_is_open_def)
  have c: "list_all (\<lambda>ev. \<not> is_response ev)
        [Tick ''AAAA'', Frame 640 480 (Handle 2), Tick ''BBBB'',
         ModeClick (JString ''classify''), Tick ''CCCC'']" by simp
  have m: "mode session_ready = JString ''detect'' \<and> confThreshold session_ready = Num (1 / 4)"
    by (simp add: session_ready_eq initial_def)
  show ?thesis
    using a b c m
      tick_sends_at_most_one_frame [of "initial 0" "''AAAA''" 0 "[]" sample_env]
      tick_sends_at_most_one_frame [of session_ready "''AAAA''" 0
        "[Tick ''AAAA'', Frame 640 480 (Handle 2), Tick ''BBBB'',
          ModeClick (JString ''classify''), Tick ''CCCC'']" sample_env]
    by simp
qed

section \<open>Inbound messages\<close>

lemma udl_fields:
  "currentDetections (snd (updateDetectionsList E s)) = currentDetections s"
  "currentMode (snd (updateDetectionsList E s)) = currentMode s"
  "lastInferenceMs (snd (updateDetectionsList E s)) = lastInferenceMs s"
  "frameCount (snd (updateDetectionsList E s)) = frameCount s"
  "currentFps (snd (updateDetectionsList E s)) = currentFps s"
  "lastFpsTime (snd (updateDetectionsList E s)) = lastFpsTime s"
  "fps_text (snd (updateDetectionsList E s)) = fps_text s"
  "ws (snd (updateDetectionsList E s)) = ws s"
  "mode (snd (updateDetectionsList E s)) = mode s"
  by (simp_all add: updateDetectionsList_def split: jsval.splits sum.splits)

lemma update_fps_fields:
  "currentDetections (update_fps now s) = currentDetections s"
  "currentMode (update_fps now s) = currentMode s"
  "lastInferenceMs (update_fps now s) = lastInferenceMs s"
  "ws (update_fps now s) = ws s"
  "mode (update_fps now s) = mode s"
  by (simp_all add: update_fps_def Let_def)

lemma copy_classifications_wf:
  "copy_classifications (map (\<lambda>(c, f). classification c f) cfs)
     = Inr (map (\<lambda>(c, f). classification c f) cfs)"
  by (induction cfs) (auto simp: classification_def copy_classification_def)

lemma hvr_detect:
  assumes "get_prop msg ''mode'' = Inr m" "m \<noteq> JString ''classify''"
    "get_prop msg ''inference_ms'' = Inr ms" "get_prop msg ''detections'' = Inr ds"
  shows "currentDetections (snd (handleVisionResult E now msg s)) = js_or ds (JArray [])
       \<and> currentMode (snd (handleVisionResult E now msg s)) = m
       \<and> lastInferenceMs (snd (handleVisionResult E now msg s)) = js_or ms (JNumber (Num 0))"
  using assms
  by (simp add: handleVisionResult_def set_detections_def Let_def udl_fields update_fps_fields
      split: sum.splits prod.splits)

lemma hvr_classify:
  assumes "get_prop msg ''mode'' = Inr (JString ''classify'')"
    "get_prop msg ''inference_ms'' = Inr ms"
    "get_prop msg ''classifications'' = Inr (JArray cs)" "copy_classifications cs = Inr ds"
  shows "currentDetections (snd (handleVisionResult E now msg s)) = JArray ds
       \<and> currentMode (snd (handleVisionResult E now msg s)) = JString ''classify''
       \<and> lastInferenceMs (snd (handleVisionResult E now msg s)) = js_or ms (JNumber (Num 0))"
  using assms
  by (simp add: handleVisionResult_def set_detections_def Let_def udl_fields update_fps_fields
      js_or_def split: sum.splits prod.splits)

lemma onmessage_result:
  "get_prop msg ''type'' = Inr (JString ''vision.result'') \<Longrightarrow>
   snd (ws_onmessage E now (Some msg) s)
     = (snd (handleVisionResult E now msg s))\<lparr>awaitingResponse := False\<rparr>"
  by (simp add: ws_onmessage_def)

text \<open>
  C2. The message handler sends nothing and leaves \<^verbatim>\<open>awaitingResponse\<close> false, whatever
  the message is. A message that \<^verbatim>\<open>JSON.parse\<close> rejects changes nothing else. A
  \<^verbatim>\<open>vision.result\<close> in detect mode stores its detections, its mode and its latency;
  one in classify mode stores its classifications. A capture tick that follows, on an
  active session with an open socket, sends a frame.
\<close>

theorem onmessage_clears_awaiting:
  "fst (ws_onmessage E now parsed s) = []
   \<and> \<not> awaitingResponse (snd (ws_onmessage E now parsed s))
   \<and> snd (ws_onmessage E now None s) = s\<lparr>awaitingResponse := False\<rparr>
   \<and> (get_prop msg ''type'' = Inr (JString ''vision.result'')
        \<and> get_prop msg ''mode'' = Inr (JString ''detect'')
        \<and> get_prop msg ''inference_ms'' = Inr ms
        \<and> get_prop msg ''detections'' = Inr (JArray ds) \<longrightarrow>
        currentDetections (snd (ws_onmessage E now (Some msg) s)) = JArray ds
        \<and> currentMode (snd (ws_onmessage E now (Some msg) s)) = JString ''detect''
        \<and> lastInferenceMs (snd (ws_onmessage E now (Some msg) s)) = js_or ms (JNumber (Num 0)))
   \<and> (get_prop msg ''type'' = Inr (JString ''vision.result'')
        \<and> get_prop msg ''mode'' = Inr (JString ''classify'')
        \<and> get_prop msg ''inference_ms'' = Inr ms
        \<and> get_prop msg ''classifications'' = Inr (JArray (map (\<lambda>(c, f). classification c f) cfs)) \<longrightarrow>
        currentDetections (snd (ws_onmessage E now (Some msg) s))
          = JArray (map (\<lambda>(c, f). classification c f) cfs)
        \<and> currentMode (snd (ws_onmessage E now (Some msg) s)) = JString ''classify'')
   \<and> (active (snd (ws_onmessage E now parsed s))
        \<and> ws (snd (ws_onmessage E now parsed s)) = Some i
        \<and> socket_is_open (snd (ws_onmessage E now parsed s)) i \<longrightarrow>
        frames_sent (fst (sendLoop_tick b (snd (ws_onmessage E now parsed s)))) = 1)"
proof -
  have a: "fst (ws_onmessage E now parsed s) = []"
    and b: "\<not> awaitingResponse (snd (ws_onmessage E now parsed s))"
    and c: "snd (ws_onmessage E now None s) = s\<lparr>awaitingResponse := False\<rparr>"
    by (simp_all add: ws_onmessage_def Let_def)
  have d: "currentDetections (snd (ws_onmessage E now (Some msg) s)) = JArray ds
        \<and> currentMode (snd (ws_onmessage E now (Some msg) s)) = JString ''detect''
        \<and> lastInferenceMs (snd (ws_onmessage E now (Some msg) s)) = js_or ms (JNumber (Num 0))"
    if "get_prop msg ''type'' = Inr (JString ''vision.result'')"
      "get_prop msg ''mode'' = Inr (JString ''detect'')"
      "get_prop msg ''inference_ms'' = Inr ms"
      "get_prop msg ''detections'' = Inr (JArray ds)"
    using that hvr_detect [of msg "JString ''detect''" ms "JArray ds" E now s]
    by (simp add: onmessage_result js_or_def)
  have e: "currentDetections (snd (ws_onmessage E now (Some msg) s))
          = JArray (map (\<lambda>(c, f). classification c f) cfs)
        \<and> currentMode (snd (ws_onmessage E now (Some msg) s)) = JString ''classify''"
    if "get_prop msg ''type'' = Inr (JString ''vision.result'')"
      "get_prop msg ''mode'' = Inr (JString ''classify'')"
      "get_prop msg ''inference_ms'' = Inr ms"
      "get_prop msg ''classifications'' = Inr (JArray (map (\<lambda>(c, f). classification c f) cfs))"
    using that hvr_classify [OF that(2) that(3) that(4) copy_classifications_wf, of E now s]
    by (simp add: onmessage_result)
  have f: "frames_sent (fst (sendLoop_tick b (snd (ws_onmessage E now parsed s)))) = 1"
    if "active (snd (ws_onmessage E now parsed s))"
      "ws (snd (ws_onmessage E now parsed s)) = Some i"
      "socket_is_open (snd (ws_onmessage E now parsed s)) i"
    using that b tick_send [of "snd (ws_onmessage E now parsed s)" i b]
    by (simp add: frames_simps)
  show ?thesis using a b c d e f by blast
qed

theorem onmessage_clears_awaiting_witness:
  "get_prop (JObject [(''type'', JString ''vision.result''), (''mode'', JString ''detect''),
                      (''inference_ms'', JNumber (Num 12)), (''detections'', JArray [])])
     ''type'' = Inr (JString ''vision.result'')
   \<and> currentDetections (snd (ws_onmessage sample_env 40
        (Some (JObject [(''type'', JString ''vision.result''), (''mode'', JString ''detect''),
                        (''inference_ms'', JNumber (Num 12)), (''detections'', JArray [])]))
        (session_ready\<lparr>awaitingResponse := True\<rparr>))) = JArray []
   \<and> lastInferenceMs (snd (ws_onmessage sample_env 40
        (Some (JObject [(''type'', JString ''vision.result''), (''mode'', JString ''detect''),
                        (''inference_ms'', JNumber (Num 12)), (''detections'', JArray [])]))
        (session_ready\<lparr>awaitingResponse := True\<rparr>))) = JNumber (Num 12)
   \<and> currentDetections (snd (ws_onmessage sample_env 40
        (Some (JObject [(''type'', JString ''vision.result''), (''mode'', JString ''classify''),
                        (''inference_ms'', JNumber (Num 9)),
                        (''classifications'', JArray [classification ''cat'' (9 / 10)])]))
        (session_ready\<lparr>awaitingResponse := True\<rparr>))) = JArray [classification ''cat'' (9 / 10)]
   \<and> \<not> awaitingResponse (snd (ws_onmessage sample_env 40 None
        (session_ready\<lparr>awaitingResponse := True\<rparr>)))
   \<and> frames_sent (fst (sendLoop_tick ''AAAA'' (snd (ws_onmessage sample_env 40 None
        (session_ready\<lparr>awaitingResponse := True\<rparr>))))) = 1"
proof -
  let ?s = "session_ready\<lparr>awaitingResponse := True\<rparr>"
  let ?d = "JObject [(''type'', JString ''vision.result''), (''mode'', JString ''detect''),
                      (''inference_ms'', JNumber (Num 12)), (''detections'', JArray [])]"
  let ?c = "JObject [(''type'', JString ''vision.result''), (''mode'', JString ''classify''),
                        (''inference_ms'', JNumber (Num 9)),
                        (''classifications'', JArray [classification ''cat'' (9 / 10)])]"
  have n: "snd (ws_onmessage sample_env 40 None ?s) = session_ready"
    by (simp add: ws_onmessage_def session_ready_eq initial_def)
  have o: "active session_ready \<and> ws session_ready = Some 0 \<and> socket_is_open session_ready 0"
    by (simp add: session_ready_eq initial_def socket_is_open_def)
  show ?thesis
    using n o
      onmessage_clears_awaiting [of sample_env 40 None ?s ?d "JNumber (Num 12)" "[]" "[]" 0 "''AAAA''"]
      onmessage_clears_awaiting [of sample_env 40 None ?s ?c "JNumber (Num 9)" "[]"
        "[(''cat'', 9 / 10)]" 0 "''AAAA''"]
    by (simp add: js_or_def)
qed

section \<open>Stopping the camera\<close>

lemma stopCamera_state:
  "snd (stopCamera s) =
     (case ws s of None \<Rightarrow> s | Some j \<Rightarrow> socket_close j s)
       \<lparr>active := False, sendTimer := None, rafId := None, stream := None, ws := None,
        currentDetections := JArray [], detections_html := [],
        fps_text := JString ''0'', inference_text := JString ''0ms'',
        objects_text := JString ''0'', confidence_text := JString ''0%''\<rparr>"
  by (simp add: stopCamera_def Let_def)










section \<open>A failed token fetch\<close>

lemma set_detections_fields:
  assumes "set_detections msg s = Inr s'"
  shows "ws s' = ws s" "currentMode s' = currentMode s" "mode s' = mode s"
        "frameCount s' = frameCount s" "currentFps s' = currentFps s"
        "lastFpsTime s' = lastFpsTime s" "lastInferenceMs s' = lastInferenceMs s"
  using assms
  by (auto simp: set_detections_def split: sum.splits if_splits jsval.splits)

lemma hvr_ws: "ws (snd (handleVisionResult E now msg s)) = ws s"
  by (auto simp: handleVisionResult_def Let_def udl_fields update_fps_fields
      set_detections_fields split: sum.splits prod.splits)


lemma ws_render: "ws (snd (render E w h r s)) = ws s"
  by (simp add: render_def Let_def split: prod.splits option.splits)

lemma ws_stopCamera: "ws (snd (stopCamera s)) = None"
  by (simp add: stopCamera_state)

lemma step_ws_none:
  assumes "ws s = None" "\<not> is_start_click ev"
  shows "ws (snd (step E ev s)) = None \<and> frames_sent (fst (step E ev s)) = 0"
proof (cases ev)
  case (StartClick gum fetched ok t r)
  then show ?thesis using assms by simp
next
  case (Tick b)
  then show ?thesis using assms by (simp add: step_def sendLoop_tick_def frames_simps)
next
  case (Frame w h r)
  then show ?thesis
    using assms quiet_render [of E w h r s] by (simp add: step_def ws_render quiet_def)
next
  case (SockOpen i)
  then show ?thesis
    using assms by (simp add: step_def ws_onopen_def set_ready_def frames_simps)
next
  case (SockMessage i now parsed)
  then show ?thesis
    using assms
    by (simp add: step_def ws_onmessage_def Let_def hvr_ws frames_simps
        split: option.splits sum.splits)
next
  case (SockError i)
  then show ?thesis
    using assms by (simp add: step_def ws_onerror_def set_ready_def frames_simps)
next
  case (SockClose i)
  then show ?thesis by (simp add: step_def ws_onclose_def frames_simps assms)
next
  case (ModeClick m)
  then show ?thesis using assms by (simp add: step_def modeBtn_click_def frames_simps)
next
  case (ConfInput v)
  then show ?thesis using assms by (simp add: step_def confSlider_input_def frames_simps)
next
  case (ViewChange v)
  then show ?thesis
    using assms quiet_stopCamera [of s]
    by (simp add: step_def viewchange_def ws_stopCamera quiet_def frames_simps)
qed

lemma run_ws_none:
  "ws s = None \<Longrightarrow> list_all (\<lambda>ev. \<not> is_start_click ev) evs \<Longrightarrow>
   ws (snd (run E evs s)) = None \<and> frames_sent (fst (run E evs s)) = 0"
proof (induction evs arbitrary: s)
  case Nil
  then show ?case by (simp add: frames_simps)
next
  case (Cons ev evs)
  have a: "ws (snd (step E ev s)) = None \<and> frames_sent (fst (step E ev s)) = 0"
    using Cons.prems step_ws_none [of s ev E] by simp
  have "ws (snd (run E evs (snd (step E ev s)))) = None
      \<and> frames_sent (fst (run E evs (snd (step E ev s)))) = 0"
    using Cons.IH [of "snd (step E ev s)"] a Cons.prems by simp
  then show ?case
    using a by (simp add: run_Cons_fst run_Cons_snd frames_sent_append del: run.simps(2))
qed

text \<open>
  C6. When the token fetch fails (\<^verbatim>\<open>fetch\<close> or \<^verbatim>\<open>json\<close> rejects, or the body is
  \<^verbatim>\<open>null\<close>), \<^verbatim>\<open>connectVisionWS\<close> returns without any effect and without any change
  of state. \<^verbatim>\<open>startCamera\<close> then only arms the capture timer and the render loop: it
  makes no socket and reports no error, and the variable \<^verbatim>\<open>ws\<close> is as before. From a
  disconnected state, no event before the next click on the start button sends a frame,
  and the session stays disconnected.
\<close>

theorem token_failure_no_frames:
  "connectVisionWS None ok s = ([], s)
   \<and> connectVisionWS (Some JNull) ok s = ([], s)
   \<and> fst (startCamera (Some tracks) None ok t r s) = [SetInterval t, RequestAnimationFrame r]
   \<and> ws (snd (startCamera (Some tracks) None ok t r s)) = ws s
   \<and> sockets (snd (startCamera (Some tracks) None ok t r s)) = sockets s
   \<and> (ws s = None \<and> list_all (\<lambda>ev. \<not> is_start_click ev) evs \<longrightarrow>
        frames_sent (fst (run E evs (snd (startCamera (Some tracks) None ok t r s)))) = 0
        \<and> ws (snd (run E evs (snd (startCamera (Some tracks) None ok t r s)))) = None)"
proof -
  have a: "ws (snd (startCamera (Some tracks) None ok t r s)) = ws s"
    by (simp add: startCamera_def connectVisionWS_def startSendLoop_def startHUDLoop_def)
  show ?thesis
    using a run_ws_none [of "snd (startCamera (Some tracks) None ok t r s)" evs E]
    by (simp add: startCamera_def connectVisionWS_def startSendLoop_def startHUDLoop_def)
qed

theorem token_failure_no_frames_witness:
  "ws (initial 0) = None
   \<and> list_all (\<lambda>ev. \<not> is_start_click ev)
        [Tick ''AAAA'', Frame 640 480 (Handle 2), SockOpen 0, Tick ''BBBB'']
   \<and> fst (startCamera (Some [0]) None True (Handle 0) (Handle 1) (initial 0))
        = [SetInterval (Handle 0), RequestAnimationFrame (Handle 1)]
   \<and> frames_sent (fst (run sample_env
        [Tick ''AAAA'', Frame 640 480 (Handle 2), SockOpen 0, Tick ''BBBB'']
        (snd (startCamera (Some [0]) None True (Handle 0) (Handle 1) (initial 0))))) = 0
   \<and> ws (snd (run sample_env
        [Tick ''AAAA'', Frame 640 480 (Handle 2), SockOpen 0, Tick ''BBBB'']
        (snd (startCamera (Some [0]) None True (Handle 0) (Handle 1) (initial 0))))) = None"
proof -
  have a: "ws (initial 0) = None" by (simp add: initial_def)
  have b: "list_all (\<lambda>ev. \<not> is_start_click ev)
        [Tick ''AAAA'', Frame 640 480 (Handle 2), SockOpen 0, Tick ''BBBB'']" by simp
  show ?thesis
    using a b
      token_failure_no_frames [of True "initial 0" "[0]" "Handle 0" "Handle 1"
        "[Tick ''AAAA'', Frame 640 480 (Handle 2), SockOpen 0, Tick ''BBBB'']" sample_env]
    by blast
qed

section \<open>Mode changes and the branch of the display\<close>












section \<open>Drawing detections\<close>





lemma get_prop_nullish: "(\<exists>e. get_prop v k = Inl e) \<longleftrightarrow> (v = JUndefined \<or> v = JNull)"
  by (cases v) auto























section \<open>The displayed frames per second\<close>

























section \<open>The detection list of the side panel\<close>

lemma fst_bump_group: "fst (bump_group k c e) = fst e"
  by (simp add: bump_group_def)

lemma map_fst_bump: "map fst (map (bump_group k c) groups) = map fst groups"
  by (induction groups) (simp_all add: fst_bump_group)

lemma occurrences_snoc:
  "occurrences k (cfs @ [(c, f)]) = (if k = c then Suc (occurrences k cfs) else occurrences k cfs)"
  by (simp add: occurrences_def)

lemma best_confidence_snoc:
  "best_confidence k (cfs @ [(c, f)])
     = (if k = c then max (best_confidence k cfs) f else best_confidence k cfs)"
  by (simp add: best_confidence_def max.commute)

lemma occurrences_absent: "k \<notin> fst ` set cfs \<Longrightarrow> occurrences k cfs = 0"
  by (auto simp: occurrences_def filter_empty_conv image_iff)

lemma best_confidence_absent: "k \<notin> fst ` set cfs \<Longrightarrow> best_confidence k cfs = 0"
proof -
  assume "k \<notin> fst ` set cfs"
  then have "filter (\<lambda>cf. fst cf = k) cfs = []" by (auto simp: filter_empty_conv image_iff)
  then show ?thesis by (simp add: best_confidence_def)
qed

lemma tallied_step:
  assumes "tallied groups cfs" "reads_as d (c, f)" "c \<notin> set object_proto_names"
  shows "\<exists>groups'. group_add E groups d = Inr groups' \<and> tallied groups' (cfs @ [(c, f)])"
proof (cases "c \<in> fst ` set groups")
  case True
  let ?g = "map (bump_group c (Num f)) groups"
  have ga: "group_add E groups d = Inr ?g"
    using assms(2) True by (simp add: group_add_def reads_as_def)
  have d: "distinct (map fst ?g)"
    using assms(1) map_fst_bump [of c "Num f" groups] by (metis tallied_def)
  have k: "fst ` set ?g = fst ` set (cfs @ [(c, f)])"
  proof -
    have "fst ` set ?g = set (map fst ?g)" by (simp only: set_map)
    also have "\<dots> = set (map fst groups)" by (simp only: map_fst_bump)
    also have "\<dots> = fst ` set groups" by (simp only: set_map)
    finally show ?thesis using assms(1) True by (auto simp: tallied_def)
  qed
  have v: "count (snd e') = occurrences (fst e') (cfs @ [(c, f)])
       \<and> maxConf (snd e') = Num (best_confidence (fst e') (cfs @ [(c, f)]))"
    if mem: "e' \<in> set ?g" for e'
  proof -
    obtain e where e: "e \<in> set groups" "e' = bump_group c (Num f) e"
      using mem unfolding set_map by blast
    have old: "count (snd e) = occurrences (fst e) cfs"
      "maxConf (snd e) = Num (best_confidence (fst e) cfs)"
      using assms(1) e(1) by (simp_all add: tallied_def)
    show ?thesis
      using old e(2)
      by (simp add: bump_group_def occurrences_snoc best_confidence_snoc del: filter_append)
  qed
  show ?thesis using ga d k v unfolding tallied_def by blast
next
  case False
  let ?g = "groups @ [(c, \<lparr>count = 1, maxConf = math_max (Num 0) (Num f)\<rparr>)]"
  have ga: "group_add E groups d = Inr ?g"
    using assms(2,3) False by (simp add: group_add_def reads_as_def)
  have notin: "c \<notin> fst ` set cfs" using assms(1) False by (simp add: tallied_def)
  have d: "distinct (map fst ?g)" using assms(1) False by (simp add: tallied_def)
  have k: "fst ` set ?g = fst ` set (cfs @ [(c, f)])"
    using assms(1) by (auto simp: tallied_def)
  have none: "occurrences c cfs = 0" "best_confidence c cfs = 0"
    using notin by (simp_all add: occurrences_absent best_confidence_absent)
  have v: "count (snd e') = occurrences (fst e') (cfs @ [(c, f)])
       \<and> maxConf (snd e') = Num (best_confidence (fst e') (cfs @ [(c, f)]))"
    if "e' \<in> set ?g" for e'
  proof (cases "e' \<in> set groups")
    case True
    then have ne: "fst e' \<noteq> c" using False by auto
    then show ?thesis
      using assms(1) True by (simp add: tallied_def occurrences_snoc best_confidence_snoc)
  next
    case False
    then have e': "e' = (c, \<lparr>count = 1, maxConf = math_max (Num 0) (Num f)\<rparr>)" using that by simp
    show ?thesis by (simp add: e' none occurrences_snoc best_confidence_snoc)
  qed
  show ?thesis using ga d k v unfolding tallied_def by blast
qed

lemma tallied_all:
  "tallied groups cfs0 \<Longrightarrow> list_all2 reads_as dets cfs
   \<Longrightarrow> list_all (\<lambda>cf. fst cf \<notin> set object_proto_names) cfs
   \<Longrightarrow> \<exists>groups'. group_all E groups dets = Inr groups' \<and> tallied groups' (cfs0 @ cfs)"
proof (induction dets arbitrary: groups cfs0 cfs)
  case Nil
  then show ?case by simp
next
  case (Cons d dets)
  then obtain cf cfs' where cfs: "cfs = cf # cfs'" "reads_as d cf" "list_all2 reads_as dets cfs'"
    by (auto simp: list_all2_Cons1)
  have np: "fst cf \<notin> set object_proto_names"
    and rest: "list_all (\<lambda>cf. fst cf \<notin> set object_proto_names) cfs'"
    using Cons.prems(3) cfs(1) by simp_all
  obtain g1 where g1: "group_add E groups d = Inr g1" "tallied g1 (cfs0 @ [cf])"
    using tallied_step [OF Cons.prems(1), of d "fst cf" "snd cf" E] cfs(2) np by auto
  obtain g2 where "group_all E g1 dets = Inr g2" "tallied g2 ((cfs0 @ [cf]) @ cfs')"
    using Cons.IH [OF g1(2) cfs(3) rest] by auto
  then show ?case using g1 cfs(1) by simp
qed

lemma tallied_Nil: "tallied [] []"
  by (simp add: tallied_def)

lemma set_object_entries: "set (object_entries groups) = set groups"
  by (auto simp: object_entries_def)

lemma distinct_object_entries: "distinct groups \<Longrightarrow> distinct (object_entries groups)"
  by (auto simp: object_entries_def)

lemma set_sort_by_count: "set (sort_by_count es) = set es"
  by (simp add: sort_by_count_def)

lemma distinct_sort_by_count: "distinct (sort_by_count es) = distinct es"
  by (simp add: sort_by_count_def)

lemma sorted_sort_by_count:
  "sorted_wrt (\<lambda>a b. count (snd a) \<ge> count (snd b)) (sort_by_count es)"
proof -
  have "sorted (map (\<lambda>e. - int (count (snd e))) (sort_by_count es))"
    unfolding sort_by_count_def by (rule sorted_sort_key)
  then show ?thesis by (simp add: sorted_map)
qed

lemma distinct_keys_entries:
  "distinct (map fst groups) \<Longrightarrow> distinct (map fst (sort_by_count (object_entries groups)))"
  by (simp add: distinct_map distinct_sort_by_count distinct_object_entries
      set_sort_by_count set_object_entries)

lemma panel_groups_by_class:
  assumes "currentMode s \<noteq> JString ''classify''" "currentDetections s = JArray dets"
    and "list_all2 reads_as dets cfs"
    and "list_all (\<lambda>cf. fst cf \<notin> set object_proto_names) cfs"
  shows "\<exists>es. fst (updateDetectionsList E s) = None
      \<and> detections_html (snd (updateDetectionsList E s)) = map (group_item E) es
      \<and> distinct (map fst es) \<and> fst ` set es = fst ` set cfs
      \<and> (\<forall>e \<in> set es.
            count (snd e) = occurrences (fst e) cfs
            \<and> maxConf (snd e) = Num (best_confidence (fst e) cfs))
      \<and> sorted_wrt (\<lambda>a b. count (snd a) \<ge> count (snd b)) es"
proof -
  obtain groups where g: "group_all E [] dets = Inr groups" "tallied groups cfs"
    using tallied_all [OF tallied_Nil assms(3,4), of E] by auto
  let ?es = "sort_by_count (object_entries groups)"
  have u: "updateDetectionsList E s = (None, s\<lparr>detections_html := map (group_item E) ?es\<rparr>)"
    using assms(1,2) g(1) by (simp add: updateDetectionsList_def)
  have se: "set ?es = set groups" by (simp add: set_sort_by_count set_object_entries)
  have d: "distinct (map fst ?es)" using g(2) distinct_keys_entries by (simp add: tallied_def)
  show ?thesis
    using u d se g(2) sorted_sort_by_count [of "object_entries groups"]
    unfolding tallied_def by (intro exI [of _ ?es]) simp
qed

lemma best_confidence_Max:
  assumes "(k, f) \<in> set cfs" "\<forall>cf \<in> set cfs. 0 \<le> snd cf"
  shows "best_confidence k cfs = Max (snd ` {cf \<in> set cfs. fst cf = k})"
proof -
  let ?xs = "map snd (filter (\<lambda>cf. fst cf = k) cfs)"
  have s: "set ?xs = snd ` {cf \<in> set cfs. fst cf = k}" by auto
  have ne: "set ?xs \<noteq> {}" using assms(1) by (auto simp: filter_empty_conv)
  have nn: "\<forall>x \<in> set ?xs. 0 \<le> x" using assms(2) by auto
  have "best_confidence k cfs = Max (set (0 # ?xs))"
    unfolding best_confidence_def by (rule Max.set_eq_fold [symmetric])
  also have "\<dots> = max 0 (Max (set ?xs))" using ne by simp
  also have "\<dots> = Max (set ?xs)"
  proof -
    have "Max (set ?xs) \<in> set ?xs" using ne by (intro Max_in) simp_all
    then have "0 \<le> Max (set ?xs)" using nn by blast
    then show ?thesis by simp
  qed
  finally show ?thesis by (simp only: s)
qed

lemma classify_items_listed:
  "classify_items E (map (\<lambda>cf. classification (fst cf) (snd cf)) cfs)
     = Inr (map (\<lambda>cf. PanelItem (fst cf) (math_round (Num (snd cf * 100)))) cfs)"
  by (induction cfs) (simp_all add: classify_item_def classification_def)

lemma panel_lists_classifications:
  assumes "currentMode s = JString ''classify''"
    and "currentDetections s = JArray (map (\<lambda>cf. classification (fst cf) (snd cf)) cfs)"
  shows "updateDetectionsList E s
     = (None, s\<lparr>detections_html :=
                  map (\<lambda>cf. PanelItem (fst cf) (math_round (Num (snd cf * 100)))) cfs\<rparr>)"
  using assms by (simp add: updateDetectionsList_def classify_items_listed)

lemmas panel_defs =
  updateDetectionsList_def group_add_def bump_group_def object_proto_names_def
  object_entries_def sort_by_count_def group_item_def is_array_index_def is_digit_def
  parse_nat_def

text \<open>
  C10 holds for class names that no object inherits (lemma \<open>panel_groups_by_class\<close>:
  one entry for each class, with its number of occurrences and its largest confidence,
  the larger count first) and in classify mode (lemma \<open>panel_lists_classifications\<close>),
  and the code breaks it for the other class names. A result with one
  detection of class \<^verbatim>\<open>constructor\<close> and two of class \<^verbatim>\<open>person\<close> counts three
  objects in the stats and lists \<^verbatim>\<open>person x2\<close> alone; a result with the
  \<^verbatim>\<open>constructor\<close> detection alone lists nothing.
\<close>

theorem panel_omits_inherited_class_name:
  "detections_html (snd (ws_onmessage sample_env 40
      (Some (sample_result [constructor_detection, sample_detection, sample_detection]))
      session_ready)) = [PanelItem ''person x2'' (Num 92)]
   \<and> objects_text (snd (ws_onmessage sample_env 40
      (Some (sample_result [constructor_detection, sample_detection, sample_detection]))
      session_ready)) = JNumber (Num 3)
   \<and> detections_html (snd (ws_onmessage sample_env 40
      (Some (sample_result [constructor_detection])) session_ready)) = []"
  by (simp add: ws_onmessage_def handleVisionResult_def set_detections_def update_fps_def
      avg_confidence_def js_add_def js_or_def panel_defs sample_result_def
      constructor_detection_def sample_detection_def sample_env_def session_ready_eq
      initial_def show_nat.simps Let_def)

end
